theory Spec2Isabelle
  imports Main
begin

section \<open>A shallow embedding of proxy.c\<close>

text \<open>
  The proxy is one C file. Its collaborators (csapp.h with the robust I/O package, cache.h
  and http_parser.h) are not among the sources. The buffer sizes they define are
  parameters of the model, the request parser and the sockets are part of the
  environment, and the cache is modelled from the specification.

  A C string is modelled by the \<^typ>\<open>string\<close> of the characters before its terminating
  NUL, so no modelled string contains a NUL (the source assumes that request and header
  lines are ASCII text). Writing past the end of a fixed-size array and a format string
  that consumes an argument which was not passed are undefined behaviour in C: the model
  returns them as a \<open>fault\<close>.
\<close>

subsection \<open>Constants\<close>

record config =
  MAXLINE :: nat
  MAXBUF :: nat
  MAX_OBJECT_SIZE :: nat
  MAX_CACHE_SIZE :: nat

abbreviation CRLF :: string where
  "CRLF \<equiv> [CHR 0x0D, CHR 0x0A]"

abbreviation LF :: string where
  "LF \<equiv> [CHR 0x0A]"

definition header_user_agent :: string where
  "header_user_agent =
     ''User-Agent: Mozilla/5.0'' @
     '' (X11; Linux x86_64; rv:3.10.0)'' @
     '' Gecko/20191101 Firefox/63.0.1'' @ CRLF"

definition header_connection :: string where
  "header_connection = ''Connection: close'' @ CRLF"

definition header_proxy_connection :: string where
  "header_proxy_connection = ''Proxy-Connection: close'' @ CRLF"

subsection \<open>The C library functions the proxy calls\<close>

abbreviation strlen :: "string \<Rightarrow> nat" where
  "strlen \<equiv> length"

definition tolower :: "char \<Rightarrow> char" where
  "tolower c =
     (if 65 \<le> (of_char c :: nat) \<and> (of_char c :: nat) \<le> 90
      then char_of (of_char c + 32 :: nat) else c)"

text \<open>
  \<open>strcasecmp\<close> and \<open>strncasecmp\<close> return the difference of the first two characters
  that differ after lowering, 0 when there is none; the end of a string reads as NUL.
\<close>

fun strcasecmp :: "string \<Rightarrow> string \<Rightarrow> int" where
  "strcasecmp [] [] = 0"
| "strcasecmp [] (b # t) = - of_char (tolower b)"
| "strcasecmp (a # s) [] = of_char (tolower a)"
| "strcasecmp (a # s) (b # t) =
     (if tolower a = tolower b then strcasecmp s t
      else of_char (tolower a) - of_char (tolower b))"

fun strncasecmp :: "string \<Rightarrow> string \<Rightarrow> nat \<Rightarrow> int" where
  "strncasecmp s t 0 = 0"
| "strncasecmp [] [] (Suc n) = 0"
| "strncasecmp [] (b # t) (Suc n) = - of_char (tolower b)"
| "strncasecmp (a # s) [] (Suc n) = of_char (tolower a)"
| "strncasecmp (a # s) (b # t) (Suc n) =
     (if tolower a = tolower b then strncasecmp s t n
      else of_char (tolower a) - of_char (tolower b))"

datatype fault = Buffer_overflow | Format_undefined

text \<open>
  \<open>sprintf(dst, fmt)\<close> with no further argument, as \<open>build_http_request\<close> calls it on a
  header line: an ordinary character is copied, \<open>%%\<close> writes one \<open>%\<close>, and any other
  conversion would read an argument that was not passed.
\<close>

fun sprintf_noargs :: "string \<Rightarrow> string option" where
  "sprintf_noargs [] = Some []"
| "sprintf_noargs [c] = (if c = CHR ''%'' then None else Some [c])"
| "sprintf_noargs (c # d # s) =
     (if c = CHR ''%''
      then (if d = CHR ''%'' then map_option ((#) (CHR ''%'')) (sprintf_noargs s) else None)
      else map_option ((#) c) (sprintf_noargs (d # s)))"

text \<open>The decimal digits that \<open>%zu\<close> prints.\<close>

fun decimal :: "nat \<Rightarrow> string" where
  "decimal n =
     (if n < 10 then [char_of (48 + n)]
      else decimal (n div 10) @ [char_of (48 + n mod 10)])"

declare decimal.simps [simp del]

subsection \<open>Observable effects\<close>

text \<open>
  A run of the handler is the list of the calls it makes on the outside world, in order.
  \<open>Client_write b\<close> is a call \<open>rio_writen(fd, b, |b|)\<close> on the client's descriptor,
  \<open>Server_write\<close> and \<open>Server_read\<close> are \<open>rio_writen\<close> and a \<open>rio_readnb\<close> that
  returned the given bytes on the origin's descriptor.
\<close>

datatype event =
    Client_write string
  | Stderr string
  | Stdout string
  | Cache_read string
  | Cache_write string string
  | Open_clientfd string string
  | Server_write string
  | Server_read string
  | Close_serverfd
  | Close_connfd
  | Accept int
  | Pthread_create int

subsection \<open>The environment of one connection\<close>

text \<open>
  The fields \<open>METHOD\<close> ... \<open>PATH\<close> are what \<open>parser_retrieve\<close> yields after a successful
  \<open>parser_parse_line\<close>; the parser itself is a function of the environment, with \<open>None\<close>
  for the state \<open>ERROR\<close>.
\<close>

record parser_t =
  METHOD :: string
  HTTP_VERSION :: string
  URI :: string
  HOST :: string
  PORT :: string
  PATH :: string

text \<open>
  \<open>client_rio\<close>: the lines that successive \<open>rio_readlineb\<close> calls on the client return
  (end of file after the last).
  \<open>buf_uninit\<close>, \<open>other_header_uninit\<close>: what the uninitialised arrays \<open>buf\<close> of \<open>doit\<close>
  and \<open>other_header\<close> of \<open>build_http_request\<close> hold, read as C strings.
  \<open>rio_writen_ok k\<close>: whether the \<open>k\<close>-th write of an error response succeeds.
  \<open>open_clientfd\<close>: the descriptor or the negative value the call returns.
  \<open>server_rio\<close>: the blocks that successive \<open>rio_readnb\<close> calls on the origin return.
\<close>

record env =
  client_rio :: "string list"
  buf_uninit :: string
  other_header_uninit :: string
  parser_parse_line :: "string \<Rightarrow> parser_t option"
  rio_writen_ok :: "nat \<Rightarrow> bool"
  open_clientfd :: "string \<Rightarrow> string \<Rightarrow> int"
  server_rio :: "string list"

text \<open>
  \<open>rio_readlineb rio buf\<close> returns the count, the new contents of \<open>buf\<close> and the rest
  of the stream; at end of file the count is 0 and \<open>buf\<close> is left as it was.
\<close>

fun rio_readlineb :: "string list \<Rightarrow> string \<Rightarrow> int \<times> string \<times> string list" where
  "rio_readlineb [] buf = (0, buf, [])"
| "rio_readlineb (l # rio) buf =
     (if l = [] then (0, buf, rio) else (int (length l), l, rio))"

subsection \<open>clienterror\<close>

definition error_body :: "string \<Rightarrow> string \<Rightarrow> string \<Rightarrow> string \<Rightarrow> string" where
  "error_body errnum shortmsg longmsg cause =
     ''<html>'' @ CRLF @
     ''<head><title>Tiny Error</title></head>'' @ CRLF @
     ''<body bgcolor='' @ [CHR 0x22] @ ''ffffff'' @ [CHR 0x22] @ ''>'' @ CRLF @
     ''<h1>'' @ errnum @ '': '' @ shortmsg @ ''</h1>'' @ CRLF @
     ''<p>'' @ longmsg @ '': '' @ cause @ ''</p>'' @ CRLF @
     ''<hr><em>The Tiny Web server</em>'' @ CRLF @
     ''</body></html>'' @ CRLF"

definition error_headers :: "string \<Rightarrow> string \<Rightarrow> nat \<Rightarrow> string" where
  "error_headers errnum shortmsg bodylen =
     ''HTTP/1.0 '' @ errnum @ '' '' @ shortmsg @ CRLF @
     ''Content-Type: text/html'' @ CRLF @
     ''Content-Length: '' @ decimal bodylen @ CRLF @ CRLF"

definition clienterror ::
  "config \<Rightarrow> (nat \<Rightarrow> bool) \<Rightarrow> string \<Rightarrow> string \<Rightarrow> string \<Rightarrow> string \<Rightarrow> event list" where
  "clienterror cfg wr cause errnum shortmsg longmsg =
     (let body = error_body errnum shortmsg longmsg cause;
          bodylen = length body
      in if bodylen \<ge> MAXBUF cfg then []
         else
           let buf = error_headers errnum shortmsg bodylen;
               buflen = length buf
           in if buflen \<ge> MAXLINE cfg then []
              else if \<not> wr 0 then
                [Client_write buf,
                 Stderr (''Error writing error response headers to client'' @ LF)]
              else if \<not> wr 1 then
                [Client_write buf, Client_write body,
                 Stderr (''Error writing error response body to client'' @ LF)]
              else [Client_write buf, Client_write body])"

subsection \<open>build\_http\_request\<close>

text \<open>
  The \<open>while\<close> loop over the client's header lines. \<open>hh\<close> is \<open>header_host\<close>, \<open>oh\<close> is
  \<open>other_header\<close>; both arrays hold \<open>maxline\<close> bytes, terminator included.
\<close>

fun header_loop ::
  "nat \<Rightarrow> string list \<Rightarrow> string \<Rightarrow> string \<Rightarrow> fault + (string \<times> string)" where
  "header_loop maxline [] hh oh = Inr (hh, oh)"
| "header_loop maxline (buf # rio) hh oh =
     (if buf = [] then Inr (hh, oh)
      else if buf = CRLF then Inr (hh, oh)
      else if strncasecmp buf ''Host'' (strlen ''Host'') = 0 then
        (case sprintf_noargs buf of
           None \<Rightarrow> Inl Format_undefined
         | Some h \<Rightarrow>
             if length h < maxline then header_loop maxline rio h oh
             else Inl Buffer_overflow)
      else if strncasecmp buf ''User-Agent'' (strlen ''User-Agent'') \<noteq> 0 \<and>
              strncasecmp buf ''Connection'' (strlen ''Connection'') \<noteq> 0 \<and>
              strncasecmp buf ''Proxy-Connection'' (strlen ''Proxy-Connection'') \<noteq> 0 then
        (if length oh + length buf < maxline then header_loop maxline rio hh (oh @ buf)
         else Inl Buffer_overflow)
      else header_loop maxline rio hh oh)"

definition build_http_request ::
  "nat \<Rightarrow> string list \<Rightarrow> string \<Rightarrow> string \<Rightarrow> string \<Rightarrow> fault + string" where
  "build_http_request maxline rio request_line header_host other_header =
     (case header_loop maxline rio header_host other_header of
        Inl f \<Rightarrow> Inl f
      | Inr (hh, oh) \<Rightarrow>
          let http_request =
                request_line @ hh @ header_user_agent @ header_connection @
                header_proxy_connection @ oh @ CRLF
          in if length http_request < maxline then Inr http_request
             else Inl Buffer_overflow)"

subsection \<open>The cache\<close>

text \<open>
  Modelled from the spec: cache.c (\<open>init_cache\<close>, \<open>read_cache\<close>, \<open>write_cache\<close>) is not
  among the sources. The cache is the list of its entries, key and body, the most
  recently used first. A lookup is an exact match on the key; on a hit the body is
  written to the client, the entry becomes the most recent, and the result is positive
  (\<open>doit\<close> tests \<open>read_cache(uri, fd) > 0\<close>); on a miss nothing is written. An insert of
  more than \<open>MAX_OBJECT_SIZE\<close> bytes, or of more than the cache can hold, is a no-op;
  otherwise it replaces the entry of the key and evicts the least recently used entries
  until the total is at most \<open>MAX_CACHE_SIZE\<close>.
\<close>

type_synonym cache = "(string \<times> string) list"

definition init_cache :: cache where
  "init_cache = []"

fun keep_recent :: "nat \<Rightarrow> cache \<Rightarrow> cache" where
  "keep_recent room [] = []"
| "keep_recent room (e # c) =
     (if length (snd e) \<le> room then e # keep_recent (room - length (snd e)) c else [])"

definition read_cache :: "cache \<Rightarrow> string \<Rightarrow> int \<times> event list \<times> cache" where
  "read_cache c uri =
     (case map_of c uri of
        None \<Rightarrow> (0, [], c)
      | Some body \<Rightarrow>
          (1, [Client_write body], (uri, body) # filter (\<lambda>e. fst e \<noteq> uri) c))"

definition write_cache :: "config \<Rightarrow> cache \<Rightarrow> string \<Rightarrow> string \<Rightarrow> cache" where
  "write_cache cfg c uri body =
     (if length body > MAX_OBJECT_SIZE cfg \<or> length body > MAX_CACHE_SIZE cfg then c
      else (uri, body) #
           keep_recent (MAX_CACHE_SIZE cfg - length body) (filter (\<lambda>e. fst e \<noteq> uri) c))"

subsection \<open>doit\<close>

text \<open>
  The loop that relays the origin's response: each block is written to the client, and
  copied behind the bytes already kept while the running total is below the cap.
\<close>

fun relay :: "nat \<Rightarrow> string list \<Rightarrow> nat \<Rightarrow> string \<Rightarrow> event list \<times> nat \<times> string" where
  "relay cap [] response_size response = ([], response_size, response)"
| "relay cap (buf # rio) response_size response =
     (if buf = [] then ([], response_size, response)
      else
        let size' = response_size + length buf;
            response' = (if size' < cap then response @ buf else response);
            (evs, r) = relay cap rio size' response'
        in (Server_read buf # Client_write buf # evs, r))"

definition doit :: "config \<Rightarrow> env \<Rightarrow> cache \<Rightarrow> fault + (event list \<times> cache)" where
  "doit cfg e c =
     (let (n0, buf, rio) = rio_readlineb (client_rio e) (buf_uninit e)
      in case parser_parse_line e buf of
           None \<Rightarrow>
             Inr (clienterror cfg (rio_writen_ok e) buf ''400'' ''Bad Request''
                    ''Tiny could not handle this request (ERROR)'', c)
         | Some parser \<Rightarrow>
             if strcasecmp (METHOD parser) ''GET'' \<noteq> 0 then
               Inr (clienterror cfg (rio_writen_ok e) buf ''501'' ''Not implemented''
                      ''Tiny does not implement this method'', c)
             else if strncasecmp (HTTP_VERSION parser) ''1.0'' (strlen ''1.0'') \<noteq> 0 \<and>
                     strncasecmp (HTTP_VERSION parser) ''1.1'' (strlen ''1.1'') \<noteq> 0 then
               Inr (clienterror cfg (rio_writen_ok e) buf ''400'' ''Bad Request''
                      ''Tiny could not handle this request (HTTP_VERSION)'', c)
             else
               let (n, hit, c1) = read_cache c (URI parser)
               in if n > 0 then Inr (Cache_read (URI parser) # hit, c1)
                  else
                    let request_line = ''GET '' @ PATH parser @ '' HTTP/1.0'' @ CRLF;
                        header_host = ''Host: '' @ HOST parser @ '':'' @ PORT parser @ CRLF
                    in if \<not> length request_line < MAXLINE cfg then Inl Buffer_overflow
                       else if \<not> length header_host < MAXLINE cfg then Inl Buffer_overflow
                       else
                         (case build_http_request (MAXLINE cfg) rio request_line header_host
                                 (other_header_uninit e) of
                            Inl f \<Rightarrow> Inl f
                          | Inr http_request \<Rightarrow>
                             if open_clientfd e (HOST parser) (PORT parser) < 0 then
                               Inr (Cache_read (URI parser) # hit @
                                    [Open_clientfd (HOST parser) (PORT parser),
                                     Stderr (''Connection failed'' @ LF)], c1)
                             else
                               let (evs, response_size, response) =
                                     relay (MAX_OBJECT_SIZE cfg) (server_rio e) 0 []
                               in if response_size < MAX_OBJECT_SIZE cfg then
                                    Inr (Cache_read (URI parser) # hit @
                                         [Open_clientfd (HOST parser) (PORT parser),
                                          Server_write http_request] @ evs @
                                         [Cache_write (URI parser) response, Close_serverfd],
                                         write_cache cfg c1 (URI parser) response)
                                  else
                                    Inr (Cache_read (URI parser) # hit @
                                         [Open_clientfd (HOST parser) (PORT parser),
                                          Server_write http_request] @ evs @
                                         [Close_serverfd], c1)))"

subsection \<open>thread and main\<close>

definition thread :: "config \<Rightarrow> env \<Rightarrow> cache \<Rightarrow> fault + (event list \<times> cache)" where
  "thread cfg e c =
     (case doit cfg e c of
        Inl f \<Rightarrow> Inl f
      | Inr (t, c') \<Rightarrow> Inr (t @ [Close_connfd], c'))"

text \<open>
  The \<open>while (1)\<close> loop of \<open>main\<close>, run on the outcomes of its first \<open>accept\<close> calls: the
  descriptor or negative value returned, and the peer's host and port as \<open>getnameinfo\<close>
  gives them. The handler of a connection runs in a thread of its own; the loop only
  creates it.
\<close>

fun accept_loop :: "(int \<times> string \<times> string) list \<Rightarrow> event list" where
  "accept_loop [] = []"
| "accept_loop ((connfd, host, port) # rest) =
     (if connfd < 0 then
        Accept connfd # Stderr ''accept error'' # accept_loop rest
      else
        Accept connfd #
        Stdout (''Accepted connection from ('' @ host @ '', '' @ port @ '')'' @ LF) #
        Pthread_create connfd # accept_loop rest)"

text \<open>
  \<open>main argv listenfd accepts\<close>: the events and the exit status, \<open>None\<close> while the
  process is still in its loop after the given \<open>accept\<close> outcomes.
\<close>

definition main ::
  "string list \<Rightarrow> int \<Rightarrow> (int \<times> string \<times> string) list \<Rightarrow> event list \<times> int option" where
  "main argv listenfd accepts =
     (if length argv \<noteq> 2 then
        ([Stderr (''usage: '' @ concat (take 1 argv) @ '' <port>'' @ LF)], Some 1)
      else if listenfd < 0 then
        ([Stderr (''Failed to listen on port: '' @ argv ! 1 @ LF)], Some 1)
      else (accept_loop accepts, None))"

section \<open>Vocabulary of the properties\<close>

subsection \<open>What build\_http\_request forwards\<close>

text \<open>
  The header lines that the loop of \<open>build_http_request\<close> reads: those before the first
  blank line (or the end of the stream). A line \<open>begins_host\<close> when the test of the
  source on \<open>Host\<close> succeeds, and \<open>begins_dropped\<close> when one of its three tests on
  \<open>User-Agent\<close>, \<open>Connection\<close> and \<open>Proxy-Connection\<close> does.
\<close>

definition header_section :: "string list \<Rightarrow> string list" where
  "header_section rio = takeWhile (\<lambda>l. l \<noteq> [] \<and> l \<noteq> CRLF) rio"

definition begins_host :: "string \<Rightarrow> bool" where
  "begins_host l = (strncasecmp l ''Host'' (strlen ''Host'') = 0)"

definition begins_dropped :: "string \<Rightarrow> bool" where
  "begins_dropped l =
     (strncasecmp l ''User-Agent'' (strlen ''User-Agent'') = 0 \<or>
      strncasecmp l ''Connection'' (strlen ''Connection'') = 0 \<or>
      strncasecmp l ''Proxy-Connection'' (strlen ''Proxy-Connection'') = 0)"

text \<open>
  The extra headers that are forwarded, the Host header that is sent (the last line that
  begins with \<open>Host\<close>, the one built by the proxy when there is none), and the request
  made of them.
\<close>

definition forwarded_extra :: "string list \<Rightarrow> string list" where
  "forwarded_extra rio =
     filter (\<lambda>l. \<not> begins_host l \<and> \<not> begins_dropped l) (header_section rio)"

definition forwarded_host :: "string \<Rightarrow> string list \<Rightarrow> string" where
  "forwarded_host header_host rio = last (header_host # filter begins_host (header_section rio))"

definition forwarded_request :: "parser_t \<Rightarrow> string list \<Rightarrow> string" where
  "forwarded_request p rio =
     ''GET '' @ PATH p @ '' HTTP/1.0'' @ CRLF @
     forwarded_host (''Host: '' @ HOST p @ '':'' @ PORT p @ CRLF) rio @
     header_user_agent @ header_connection @ header_proxy_connection @
     concat (forwarded_extra rio) @ CRLF"

text \<open>
  A header line begins with a name when its first characters are those of the name,
  letter case aside.
\<close>

definition prefix_nocase :: "string \<Rightarrow> string \<Rightarrow> bool" where
  "prefix_nocase name l = (map tolower (take (length name) l) = map tolower name)"

subsection \<open>The outbound request as the specification words it\<close>

text \<open>
  Sections 4.2 (step 6) and 6 of the specification: the request line, a \<open>Host\<close> header
  built from the parsed host and port, the three fixed headers, then the client's headers
  except those named \<open>Host\<close>, \<open>User-Agent\<close>, \<open>Connection\<close> and \<open>Proxy-Connection\<close>, and
  the blank line. The name of a header is what stands before its colon.
\<close>

definition header_name :: "string \<Rightarrow> string" where
  "header_name l = takeWhile (\<lambda>c. c \<noteq> CHR '':'') l"

definition reserved_header :: "string \<Rightarrow> bool" where
  "reserved_header l =
     (map tolower (header_name l) \<in>
        set [''host'', ''user-agent'', ''connection'', ''proxy-connection''])"

definition spec_outbound_request :: "parser_t \<Rightarrow> string list \<Rightarrow> string" where
  "spec_outbound_request p rio =
     ''GET '' @ PATH p @ '' HTTP/1.0'' @ CRLF @
     ''Host: '' @ HOST p @ '':'' @ PORT p @ CRLF @
     header_user_agent @ header_connection @ header_proxy_connection @
     concat (filter (\<lambda>l. \<not> reserved_header l) (header_section rio)) @ CRLF"

subsection \<open>Runs of doit\<close>

text \<open>
  The version test of \<open>doit\<close>, the blocks the origin delivers before its end of file, the
  events of their relay, and the requests a run wrote to the origin.
\<close>

definition accepted_version :: "string \<Rightarrow> bool" where
  "accepted_version v =
     (strncasecmp v ''1.0'' (strlen ''1.0'') = 0 \<or> strncasecmp v ''1.1'' (strlen ''1.1'') = 0)"

definition origin_blocks :: "env \<Rightarrow> string list" where
  "origin_blocks e = takeWhile (\<lambda>b. b \<noteq> []) (server_rio e)"

definition relayed :: "string list \<Rightarrow> event list" where
  "relayed blocks = concat (map (\<lambda>b. [Server_read b, Client_write b]) blocks)"

definition server_writes :: "fault + event list \<times> cache \<Rightarrow> string list" where
  "server_writes r = (case r of Inl f \<Rightarrow> [] | Inr (t, c) \<Rightarrow> [b. Server_write b \<leftarrow> t])"

subsection \<open>Concrete inputs\<close>

text \<open>
  The buffer sizes of CS:APP's csapp.h and of the proxy lab (objects of 100 KiB, a cache
  of 1 MiB), a request line with the fields a parser yields for it, and an environment
  whose parser maps the request line to the given result, whose writes succeed and whose
  origin accepts the connection.
\<close>

definition csapp_config :: config where
  "csapp_config =
     \<lparr>MAXLINE = 8192, MAXBUF = 8192, MAX_OBJECT_SIZE = 102400, MAX_CACHE_SIZE = 1048576\<rparr>"

definition example_request :: string where
  "example_request = ''GET http://example.com/ HTTP/1.1'' @ CRLF"

definition example_parsed :: parser_t where
  "example_parsed =
     \<lparr>METHOD = ''GET'', HTTP_VERSION = ''1.1'', URI = ''example.com:80/'',
      HOST = ''example.com'', PORT = ''80'', PATH = ''/''\<rparr>"

definition example_env ::
  "string \<Rightarrow> parser_t option \<Rightarrow> string list \<Rightarrow> string list \<Rightarrow> env" where
  "example_env request parsed headers blocks =
     \<lparr>client_rio = request # headers, buf_uninit = [], other_header_uninit = [],
      parser_parse_line = (\<lambda>line. if line = request then parsed else None),
      rio_writen_ok = (\<lambda>k. True), open_clientfd = (\<lambda>host port. 3),
      server_rio = blocks\<rparr>"

text \<open>
  Request lines of more than 8000 characters (a line that \<open>rio_readlineb\<close> returns has
  at most \<open>MAXLINE - 1\<close>), and two short ones.
\<close>

definition long_request :: "string \<Rightarrow> string \<Rightarrow> string" where
  "long_request m v =
     m @ '' http://example.com/'' @ replicate 8000 (CHR ''a'') @ '' HTTP/'' @ v @ CRLF"

definition versionless_request :: string where
  "versionless_request = ''GET /'' @ CRLF"

definition post_request :: string where
  "post_request = ''POST http://example.com/ HTTP/1.1'' @ CRLF"

definition http2_request :: string where
  "http2_request = ''GET http://example.com/ HTTP/2.0'' @ CRLF"

text \<open>
  Header lines of a client, the request line and the \<open>Host\<close> header that \<open>doit\<close> builds
  for the example request, and two responses of an origin in blocks of at most
  \<open>MAXLINE\<close> bytes: one of exactly \<open>MAX_OBJECT_SIZE\<close> bytes, one larger.
\<close>

definition host_line :: string where
  "host_line = ''Host: example.com'' @ CRLF"

definition host_override_line :: string where
  "host_override_line = ''Host-Override: x'' @ CRLF"

definition connection_id_line :: string where
  "connection_id_line = ''Connection-Id: 5'' @ CRLF"

definition accept_line :: string where
  "accept_line = ''Accept: */*'' @ CRLF"

definition proxy_request_line :: string where
  "proxy_request_line = ''GET / HTTP/1.0'' @ CRLF"

definition proxy_host_header :: string where
  "proxy_host_header = ''Host: example.com:80'' @ CRLF"

definition exact_cap_blocks :: "string list" where
  "exact_cap_blocks = replicate 12 (replicate 8192 (CHR ''x'')) @ [replicate 4096 (CHR ''x'')]"

definition oversized_blocks :: "string list" where
  "oversized_blocks = replicate 13 (replicate 8192 (CHR ''x''))"

section \<open>Lemmas\<close>

lemma tolower_bits:
  "tolower c =
     (if 65 \<le> (of_char c :: nat) \<and> (of_char c :: nat) \<le> 90
      then Char (digit0 c) (digit1 c) (digit2 c) (digit3 c) (digit4 c) True (digit6 c) (digit7 c)
      else c)"
proof (cases c)
  case (Char b0 b1 b2 b3 b4 b5 b6 b7)
  show ?thesis
    unfolding Char tolower_def
    by (cases b0; cases b1; cases b2; cases b3; cases b4; cases b5; cases b6; cases b7;
        simp add: char_of_def bit_Suc_0_iff)
qed

lemma tolower_initials:
  "tolower (CHR ''H'') = CHR ''h''" "tolower (CHR ''U'') = CHR ''u''"
  "tolower (CHR ''C'') = CHR ''c''" "tolower (CHR ''P'') = CHR ''p''"
  "tolower (CHR 0x0D) = CHR 0x0D"
  by (simp_all add: tolower_bits)

lemma strncasecmp_Cons_0:
  "strncasecmp (a # s) (b # t) n = 0 \<Longrightarrow> 0 < n \<Longrightarrow> tolower a = tolower b"
  by (cases n) (simp_all split: if_splits)

lemma begins_host_Cons:
  assumes "begins_host (a # s)"
  shows "tolower a = CHR ''h''"
proof -
  from assms have "strncasecmp (a # s) ''Host'' (strlen ''Host'') = 0"
    by (simp only: begins_host_def)
  moreover have "0 < strlen ''Host''" by simp
  ultimately have "tolower a = tolower (CHR ''H'')" by (rule strncasecmp_Cons_0)
  then show ?thesis by (simp add: tolower_initials)
qed

lemma begins_dropped_Cons:
  assumes "begins_dropped (a # s)"
  shows "tolower a = CHR ''u'' \<or> tolower a = CHR ''c'' \<or> tolower a = CHR ''p''"
proof -
  from assms consider
      "strncasecmp (a # s) ''User-Agent'' (strlen ''User-Agent'') = 0"
    | "strncasecmp (a # s) ''Connection'' (strlen ''Connection'') = 0"
    | "strncasecmp (a # s) ''Proxy-Connection'' (strlen ''Proxy-Connection'') = 0"
    unfolding begins_dropped_def by blast
  then show ?thesis
  proof cases
    case 1
    moreover have "0 < strlen ''User-Agent''" by simp
    ultimately have "tolower a = tolower (CHR ''U'')" by (rule strncasecmp_Cons_0)
    then show ?thesis by (simp add: tolower_initials)
  next
    case 2
    moreover have "0 < strlen ''Connection''" by simp
    ultimately have "tolower a = tolower (CHR ''C'')" by (rule strncasecmp_Cons_0)
    then show ?thesis by (simp add: tolower_initials)
  next
    case 3
    moreover have "0 < strlen ''Proxy-Connection''" by simp
    ultimately have "tolower a = tolower (CHR ''P'')" by (rule strncasecmp_Cons_0)
    then show ?thesis by (simp add: tolower_initials)
  qed
qed

lemma begins_host_not_blank: "begins_host l \<Longrightarrow> l \<noteq> [] \<and> l \<noteq> CRLF"
  by (cases l) (auto simp add: begins_host_def tolower_initials split: if_splits)

lemma begins_dropped_not_blank: "begins_dropped l \<Longrightarrow> l \<noteq> [] \<and> l \<noteq> CRLF"
  by (cases l) (auto simp add: begins_dropped_def tolower_initials split: if_splits)

lemma begins_dropped_not_host: "begins_dropped l \<Longrightarrow> \<not> begins_host l"
proof (cases l)
  case Nil
  then show ?thesis by (simp add: begins_host_def tolower_initials)
next
  case (Cons a s)
  assume "begins_dropped l"
  with Cons have "tolower a = CHR ''u'' \<or> tolower a = CHR ''c'' \<or> tolower a = CHR ''p''"
    using begins_dropped_Cons by blast
  then have "tolower a \<noteq> CHR ''h''" by auto
  with Cons show ?thesis using begins_host_Cons by blast
qed

lemma sprintf_noargs_plain: "CHR ''%'' \<notin> set s \<Longrightarrow> sprintf_noargs s = Some s"
  by (induction s rule: sprintf_noargs.induct) auto

lemma header_loop_step_host:
  "begins_host l \<Longrightarrow> header_loop mx (l # rio) hh oh =
     (case sprintf_noargs l of None \<Rightarrow> Inl Format_undefined
      | Some h \<Rightarrow> if length h < mx then header_loop mx rio h oh else Inl Buffer_overflow)"
  using begins_host_not_blank[of l] by (simp add: begins_host_def)

lemma header_loop_step_dropped:
  "begins_dropped l \<Longrightarrow> header_loop mx (l # rio) hh oh = header_loop mx rio hh oh"
  using begins_dropped_not_blank[of l] begins_dropped_not_host[of l]
  by (auto simp add: begins_host_def begins_dropped_def)

lemma header_loop_step_other:
  "l \<noteq> [] \<Longrightarrow> l \<noteq> CRLF \<Longrightarrow> \<not> begins_host l \<Longrightarrow> \<not> begins_dropped l \<Longrightarrow>
   header_loop mx (l # rio) hh oh =
     (if length oh + length l < mx then header_loop mx rio hh (oh @ l) else Inl Buffer_overflow)"
  by (simp add: begins_host_def begins_dropped_def)

lemma header_loop_step_blank:
  "l = [] \<or> l = CRLF \<Longrightarrow> header_loop mx (l # rio) hh oh = Inr (hh, oh)"
  by auto

declare header_loop.simps [simp del]

lemma header_loop_Nil: "header_loop mx [] hh oh = Inr (hh, oh)"
  by (simp add: header_loop.simps)

lemma header_section_Cons:
  "header_section (l # rio) = (if l \<noteq> [] \<and> l \<noteq> CRLF then l # header_section rio else [])"
  by (simp add: header_section_def)

lemma header_loop_ok:
  assumes "\<forall>l \<in> set (filter begins_host (header_section rio)).
             CHR ''%'' \<notin> set l \<and> length l < mx"
    and "length (oh @ concat (forwarded_extra rio)) < mx"
  shows "header_loop mx rio hh oh =
           Inr (forwarded_host hh rio, oh @ concat (forwarded_extra rio))"
  using assms
proof (induction rio arbitrary: hh oh)
  case Nil
  then show ?case
    by (simp add: header_loop_Nil forwarded_host_def forwarded_extra_def header_section_def)
next
  case (Cons l rio)
  consider (blank) "l = [] \<or> l = CRLF"
    | (host) "begins_host l"
    | (dropped) "begins_dropped l"
    | (other) "l \<noteq> []" "l \<noteq> CRLF" "\<not> begins_host l" "\<not> begins_dropped l"
    by blast
  then show ?case
  proof cases
    case blank
    then show ?thesis
      using header_loop_step_blank [OF blank]
      by (auto simp add: forwarded_host_def forwarded_extra_def header_section_Cons)
  next
    case host
    then have nb: "l \<noteq> []" "l \<noteq> CRLF"
      using begins_host_not_blank by blast+
    have nd: "\<not> begins_dropped l"
      using host begins_dropped_not_host by blast
    from Cons.prems(1) host nb have l: "CHR ''%'' \<notin> set l" "length l < mx"
      by (simp_all add: header_section_Cons)
    have step: "header_loop mx (l # rio) hh oh = header_loop mx rio l oh"
      using l by (simp add: header_loop_step_host [OF host] sprintf_noargs_plain)
    have "header_loop mx rio l oh =
            Inr (forwarded_host l rio, oh @ concat (forwarded_extra rio))"
      using Cons.prems host nb
      by (intro Cons.IH) (simp_all add: header_section_Cons forwarded_extra_def)
    then show ?thesis
      using step host nb
      by (simp add: forwarded_host_def forwarded_extra_def header_section_Cons)
  next
    case dropped
    then have nb: "l \<noteq> []" "l \<noteq> CRLF"
      using begins_dropped_not_blank by blast+
    have nh: "\<not> begins_host l"
      using dropped begins_dropped_not_host by blast
    have "header_loop mx rio hh oh =
            Inr (forwarded_host hh rio, oh @ concat (forwarded_extra rio))"
      using Cons.prems dropped nb nh
      by (intro Cons.IH) (simp_all add: header_section_Cons forwarded_extra_def)
    then show ?thesis
      using dropped nb nh
      by (simp add: header_loop_step_dropped [OF dropped] forwarded_host_def
          forwarded_extra_def header_section_Cons)
  next
    case other
    have ex: "forwarded_extra (l # rio) = l # forwarded_extra rio"
      using other by (simp add: forwarded_extra_def header_section_Cons)
    have fit: "length oh + length l < mx"
      using Cons.prems(2) by (simp add: ex)
    have "header_loop mx rio hh (oh @ l) =
            Inr (forwarded_host hh rio, (oh @ l) @ concat (forwarded_extra rio))"
      using Cons.prems other
      by (intro Cons.IH) (simp_all add: header_section_Cons ex)
    then show ?thesis
      using other fit
      by (simp add: header_loop_step_other [OF other] ex forwarded_host_def header_section_Cons)
  qed
qed

lemma relay_events:
  "fst (relay cap rio sz resp) =
     concat (map (\<lambda>b. [Server_read b, Client_write b]) (takeWhile (\<lambda>b. b \<noteq> []) rio))"
  by (induction rio arbitrary: sz resp) (simp_all add: Let_def case_prod_beta)

lemma relay_size:
  "fst (snd (relay cap rio sz resp)) = sz + length (concat (takeWhile (\<lambda>b. b \<noteq> []) rio))"
  by (induction rio arbitrary: sz resp) (simp_all add: Let_def case_prod_beta)

lemma relay_response:
  "sz + length (concat (takeWhile (\<lambda>b. b \<noteq> []) rio)) < cap \<Longrightarrow>
   snd (snd (relay cap rio sz resp)) = resp @ concat (takeWhile (\<lambda>b. b \<noteq> []) rio)"
proof (induction rio arbitrary: sz resp)
  case Nil
  then show ?case by simp
next
  case (Cons b rio)
  show ?case
  proof (cases "b = []")
    case True
    then show ?thesis by simp
  next
    case False
    with Cons.prems have "(sz + length b) + length (concat (takeWhile (\<lambda>b. b \<noteq> []) rio)) < cap"
      by simp
    from Cons.IH [OF this, of "resp @ b"] False Cons.prems show ?thesis
      by (simp add: Let_def case_prod_beta)
  qed
qed

lemma clienterror_sent:
  assumes "length (error_body errnum shortmsg longmsg cause) < MAXBUF cfg"
    and "length (error_headers errnum shortmsg (length (error_body errnum shortmsg longmsg cause)))
           < MAXLINE cfg"
    and "wr 0" and "wr 1"
  shows "clienterror cfg wr cause errnum shortmsg longmsg =
           [Client_write (error_headers errnum shortmsg
                            (length (error_body errnum shortmsg longmsg cause))),
            Client_write (error_body errnum shortmsg longmsg cause)]"
  using assms by (simp add: clienterror_def Let_def)

lemma clienterror_silent:
  assumes "MAXBUF cfg \<le> length (error_body errnum shortmsg longmsg cause) \<or>
           MAXLINE cfg \<le> length (error_headers errnum shortmsg
                                    (length (error_body errnum shortmsg longmsg cause)))"
  shows "clienterror cfg wr cause errnum shortmsg longmsg = []"
  using assms by (auto simp add: clienterror_def Let_def)

lemma doit_parse_error:
  assumes "rio_readlineb (client_rio e) (buf_uninit e) = (n, request, rio)"
    and "parser_parse_line e request = None"
  shows "doit cfg e c =
           Inr (clienterror cfg (rio_writen_ok e) request ''400'' ''Bad Request''
                  ''Tiny could not handle this request (ERROR)'', c)"
  using assms by (simp add: doit_def)

lemma doit_bad_method:
  assumes "rio_readlineb (client_rio e) (buf_uninit e) = (n, request, rio)"
    and "parser_parse_line e request = Some p"
    and "strcasecmp (METHOD p) ''GET'' \<noteq> 0"
  shows "doit cfg e c =
           Inr (clienterror cfg (rio_writen_ok e) request ''501'' ''Not implemented''
                  ''Tiny does not implement this method'', c)"
  using assms by (simp add: doit_def)

lemma doit_bad_version:
  assumes "rio_readlineb (client_rio e) (buf_uninit e) = (n, request, rio)"
    and "parser_parse_line e request = Some p"
    and "strcasecmp (METHOD p) ''GET'' = 0"
    and "\<not> accepted_version (HTTP_VERSION p)"
  shows "doit cfg e c =
           Inr (clienterror cfg (rio_writen_ok e) request ''400'' ''Bad Request''
                  ''Tiny could not handle this request (HTTP_VERSION)'', c)"
  using assms by (simp add: doit_def accepted_version_def)

lemma doit_hit:
  assumes "rio_readlineb (client_rio e) (buf_uninit e) = (n, request, rio)"
    and "parser_parse_line e request = Some p"
    and "strcasecmp (METHOD p) ''GET'' = 0"
    and "accepted_version (HTTP_VERSION p)"
    and "map_of c (URI p) = Some body"
  shows "doit cfg e c =
           Inr ([Cache_read (URI p), Client_write body],
                (URI p, body) # filter (\<lambda>x. fst x \<noteq> URI p) c)"
  using assms by (auto simp add: doit_def accepted_version_def read_cache_def)

lemma doit_miss:
  assumes "rio_readlineb (client_rio e) (buf_uninit e) = (n, request, rio)"
    and "parser_parse_line e request = Some p"
    and "strcasecmp (METHOD p) ''GET'' = 0"
    and "accepted_version (HTTP_VERSION p)"
    and "map_of c (URI p) = None"
    and "length (''GET '' @ PATH p @ '' HTTP/1.0'' @ CRLF) < MAXLINE cfg"
    and "length (''Host: '' @ HOST p @ '':'' @ PORT p @ CRLF) < MAXLINE cfg"
    and "build_http_request (MAXLINE cfg) rio (''GET '' @ PATH p @ '' HTTP/1.0'' @ CRLF)
           (''Host: '' @ HOST p @ '':'' @ PORT p @ CRLF) (other_header_uninit e) = Inr http_request"
    and "0 \<le> open_clientfd e (HOST p) (PORT p)"
  shows "doit cfg e c =
           Inr ([Cache_read (URI p), Open_clientfd (HOST p) (PORT p), Server_write http_request] @
                relayed (origin_blocks e) @
                (if length (concat (origin_blocks e)) < MAX_OBJECT_SIZE cfg
                 then [Cache_write (URI p) (concat (origin_blocks e))] else []) @
                [Close_serverfd],
                if length (concat (origin_blocks e)) < MAX_OBJECT_SIZE cfg
                then write_cache cfg c (URI p) (concat (origin_blocks e)) else c)"
proof -
  obtain evs sz resp where r: "relay (MAX_OBJECT_SIZE cfg) (server_rio e) 0 [] = (evs, sz, resp)"
    by (cases "relay (MAX_OBJECT_SIZE cfg) (server_rio e) 0 []") auto
  have evs: "evs = relayed (origin_blocks e)"
    using relay_events [of "MAX_OBJECT_SIZE cfg" "server_rio e" 0 "[]"] r
    by (simp add: relayed_def origin_blocks_def)
  have sz: "sz = length (concat (origin_blocks e))"
    using relay_size [of "MAX_OBJECT_SIZE cfg" "server_rio e" 0 "[]"] r
    by (simp add: origin_blocks_def)
  have resp: "sz < MAX_OBJECT_SIZE cfg \<Longrightarrow> resp = concat (origin_blocks e)"
    using relay_response [of 0 "server_rio e" "MAX_OBJECT_SIZE cfg" "[]"] r sz
    by (simp add: origin_blocks_def)
  have rc: "read_cache c (URI p) = (0, [], c)"
    using assms(5) by (simp add: read_cache_def)
  show ?thesis
  proof (cases "sz < MAX_OBJECT_SIZE cfg")
    case True
    with assms(1-4,6-9) rc r evs sz resp [OF True] show ?thesis
      by (auto simp add: doit_def accepted_version_def simp del: length_append append.simps)
  next
    case False
    with assms(1-4,6-9) rc r evs sz show ?thesis
      by (auto simp add: doit_def accepted_version_def simp del: length_append append.simps)
  qed
qed

lemma build_http_request_ok:
  assumes "\<forall>l \<in> set (filter begins_host (header_section rio)).
             CHR ''%'' \<notin> set l \<and> length l < mx"
    and "length (request_line @ forwarded_host header_host rio @ header_user_agent @
                 header_connection @ header_proxy_connection @
                 oh @ concat (forwarded_extra rio) @ CRLF) < mx"
  shows "build_http_request mx rio request_line header_host oh =
           Inr (request_line @ forwarded_host header_host rio @ header_user_agent @
                header_connection @ header_proxy_connection @
                oh @ concat (forwarded_extra rio) @ CRLF)"
proof -
  have "length (oh @ concat (forwarded_extra rio)) < mx"
    using assms(2) by simp
  from header_loop_ok [OF assms(1) this] assms(2) show ?thesis
    by (simp add: build_http_request_def del: length_append)
qed

lemma header_loop_dropped_line:
  assumes "begins_dropped l"
  shows "header_loop mx (pre @ l # post) hh oh = header_loop mx (pre @ post) hh oh"
proof (induction pre arbitrary: hh oh)
  case Nil
  show ?case by (simp add: header_loop_step_dropped [OF assms])
next
  case (Cons x pre)
  show ?case
    by (simp add: header_loop.simps Cons.IH split: option.splits)
qed

lemma example_request_read:
  "rio_readlineb (client_rio (example_env example_request parsed headers blocks))
     (buf_uninit (example_env example_request parsed headers blocks)) =
   (34, example_request, headers)"
  by (simp add: example_env_def example_request_def)

lemma example_parsed_valid:
  "strcasecmp (METHOD example_parsed) ''GET'' = 0"
  "accepted_version (HTTP_VERSION example_parsed)"
  by (simp_all add: example_parsed_def accepted_version_def tolower_bits)

lemma long_request_read:
  "rio_readlineb (client_rio (example_env (long_request m v) parsed headers blocks))
     (buf_uninit (example_env (long_request m v) parsed headers blocks)) =
   (int (length (long_request m v)), long_request m v, headers)"
  by (simp add: example_env_def long_request_def)

lemma example_env_parser:
  "parser_parse_line (example_env request parsed headers blocks) request = parsed"
  by (simp add: example_env_def)

lemma example_env_writes:
  "rio_writen_ok (example_env request parsed headers blocks) k"
  by (simp add: example_env_def)

lemma Cache_read_notin_clienterror:
  "Cache_read u \<notin> set (clienterror cfg wr cause errnum shortmsg longmsg)"
  by (simp add: clienterror_def Let_def)

lemma decimal_210: "decimal 210 = ''210''"
  by code_simp

lemma decimal_235: "decimal 235 = ''235''"
  by code_simp

lemma decimal_244: "decimal 244 = ''244''"
  by code_simp

lemma version_2_rejected: "\<not> accepted_version (HTTP_VERSION (example_parsed\<lparr>HTTP_VERSION := ''2.0''\<rparr>))"
  by (simp add: accepted_version_def tolower_bits)

lemma example_parsed_update_GET:
  "strcasecmp (METHOD (example_parsed\<lparr>HTTP_VERSION := v\<rparr>)) ''GET'' = 0"
  by (simp add: example_parsed_def tolower_bits)

lemma accept_loop_append: "accept_loop (xs @ ys) = accept_loop xs @ accept_loop ys"
  by (induction xs rule: accept_loop.induct) simp_all

lemma tolower_NUL: "tolower c = CHR 0x00 \<longleftrightarrow> c = CHR 0x00"
  by (cases c) (auto simp add: tolower_bits)

lemma strncasecmp_0_iff:
  assumes "CHR 0x00 \<notin> set t" and "n = length t"
  shows "strncasecmp s t n = 0 \<longleftrightarrow> map tolower (take n s) = map tolower t"
  using assms
proof (induction s t n rule: strncasecmp.induct)
  case (1 s t)
  then show ?case by simp
next
  case (2 n)
  then show ?case by simp
next
  case (3 b t n)
  then have "b \<noteq> CHR 0x00" by auto
  then have "tolower b \<noteq> CHR 0x00" by (simp add: tolower_NUL)
  then have "(of_char (tolower b) :: int) \<noteq> of_char (CHR 0x00)"
    by (simp only: of_char_eq_iff not_False_eq_True)
  then show ?case by simp
next
  case (4 a s n)
  then show ?case by simp
next
  case (5 a s b t n)
  then show ?case by auto
qed

lemma begins_host_iff:
  "begins_host l \<longleftrightarrow> map tolower (take (strlen ''Host'') l) = map tolower ''Host''"
  unfolding begins_host_def by (rule strncasecmp_0_iff) simp_all

lemma begins_host_prefix: "begins_host l = prefix_nocase ''Host'' l"
  unfolding begins_host_def prefix_nocase_def by (rule strncasecmp_0_iff) simp_all

lemma begins_dropped_prefix:
  "begins_dropped l =
     (prefix_nocase ''User-Agent'' l \<or> prefix_nocase ''Connection'' l \<or>
      prefix_nocase ''Proxy-Connection'' l)"
proof -
  have "strncasecmp l ''User-Agent'' (strlen ''User-Agent'') = 0 \<longleftrightarrow>
          prefix_nocase ''User-Agent'' l"
    unfolding prefix_nocase_def by (rule strncasecmp_0_iff) simp_all
  moreover have "strncasecmp l ''Connection'' (strlen ''Connection'') = 0 \<longleftrightarrow>
          prefix_nocase ''Connection'' l"
    unfolding prefix_nocase_def by (rule strncasecmp_0_iff) simp_all
  moreover have "strncasecmp l ''Proxy-Connection'' (strlen ''Proxy-Connection'') = 0 \<longleftrightarrow>
          prefix_nocase ''Proxy-Connection'' l"
    unfolding prefix_nocase_def by (rule strncasecmp_0_iff) simp_all
  ultimately show ?thesis
    unfolding begins_dropped_def by blast
qed

lemma build_http_request_dropped_line:
  assumes "begins_dropped l"
  shows "build_http_request mx (pre @ l # post) request_line header_host oh =
         build_http_request mx (pre @ post) request_line header_host oh"
  by (simp add: build_http_request_def header_loop_dropped_line [OF assms])

lemma header_section_append:
  assumes "\<forall>x \<in> set pre. x \<noteq> [] \<and> x \<noteq> CRLF" and "l \<noteq> []" and "l \<noteq> CRLF"
  shows "header_section (pre @ l # post) = pre @ l # header_section post"
  using assms by (simp add: header_section_def takeWhile_append2)

lemma build_http_request_last_host:
  assumes "begins_host l" and "CHR ''%'' \<notin> set l"
    and "\<forall>x \<in> set pre. x \<noteq> [] \<and> x \<noteq> CRLF"
    and "filter begins_host (header_section post) = []"
    and "\<forall>x \<in> set (filter begins_host pre). CHR ''%'' \<notin> set x \<and> length x < mx"
    and "length (request_line @ l @ header_user_agent @ header_connection @
                 header_proxy_connection @ oh @
                 concat (forwarded_extra (pre @ l # post)) @ CRLF) < mx"
  shows "build_http_request mx (pre @ l # post) request_line header_host oh =
           Inr (request_line @ l @ header_user_agent @ header_connection @
                header_proxy_connection @ oh @
                concat (forwarded_extra (pre @ l # post)) @ CRLF)"
proof -
  have nb: "l \<noteq> []" "l \<noteq> CRLF"
    using assms(1) begins_host_not_blank by blast+
  have hs: "header_section (pre @ l # post) = pre @ l # header_section post"
    by (rule header_section_append [OF assms(3) nb])
  have hosts: "filter begins_host (header_section (pre @ l # post)) =
                 filter begins_host pre @ [l]"
    using assms(1,4) by (simp add: hs)
  have fh: "forwarded_host header_host (pre @ l # post) = l"
    by (simp add: forwarded_host_def hosts)
  have "length l < mx"
    using assms(6) by simp
  then have ball: "\<forall>x \<in> set (filter begins_host (header_section (pre @ l # post))).
                     CHR ''%'' \<notin> set x \<and> length x < mx"
    using assms(2,5) by (auto simp add: hosts)
  from build_http_request_ok [OF ball, of request_line header_host oh] assms(6) show ?thesis
    by (simp only: fh)
qed

lemmas line_defs =
  host_line_def host_override_line_def connection_id_line_def accept_line_def
  proxy_request_line_def proxy_host_header_def

lemmas header_eval =
  header_section_def forwarded_extra_def forwarded_host_def begins_host_def
  begins_dropped_def tolower_bits

lemma fixed_headers_length:
  "length header_user_agent = 86" "length header_connection = 19"
  "length header_proxy_connection = 25"
  by (simp_all add: header_user_agent_def header_connection_def header_proxy_connection_def)

lemma server_writes_relayed: "[b. Server_write b \<leftarrow> relayed bs] = []"
  by (induction bs) (simp_all add: relayed_def)

lemma client_writes_relayed: "[b. Client_write b \<leftarrow> relayed bs] = bs"
  by (induction bs) (simp_all add: relayed_def)

lemma doit_forwards:
  assumes "rio_readlineb (client_rio e) (buf_uninit e) = (n, request, rio)"
    and "parser_parse_line e request = Some p"
    and "strcasecmp (METHOD p) ''GET'' = 0"
    and "accepted_version (HTTP_VERSION p)"
    and "map_of c (URI p) = None"
    and "0 \<le> open_clientfd e (HOST p) (PORT p)"
    and "other_header_uninit e = []"
    and "\<forall>l \<in> set (filter begins_host (header_section rio)).
           CHR ''%'' \<notin> set l \<and> length l < MAXLINE cfg"
    and "length (''Host: '' @ HOST p @ '':'' @ PORT p @ CRLF) < MAXLINE cfg"
    and "length (forwarded_request p rio) < MAXLINE cfg"
  shows "doit cfg e c =
           Inr ([Cache_read (URI p), Open_clientfd (HOST p) (PORT p),
                 Server_write (forwarded_request p rio)] @
                relayed (origin_blocks e) @
                (if length (concat (origin_blocks e)) < MAX_OBJECT_SIZE cfg
                 then [Cache_write (URI p) (concat (origin_blocks e))] else []) @
                [Close_serverfd],
                if length (concat (origin_blocks e)) < MAX_OBJECT_SIZE cfg
                then write_cache cfg c (URI p) (concat (origin_blocks e)) else c)"
proof -
  let ?rl = "''GET '' @ PATH p @ '' HTTP/1.0'' @ CRLF"
  let ?hh = "''Host: '' @ HOST p @ '':'' @ PORT p @ CRLF"
  have len: "length (?rl @ forwarded_host ?hh rio @ header_user_agent @ header_connection @
               header_proxy_connection @ [] @ concat (forwarded_extra rio) @ CRLF)
             < MAXLINE cfg"
    using assms(10) by (simp add: forwarded_request_def)
  have b: "build_http_request (MAXLINE cfg) rio ?rl ?hh (other_header_uninit e) =
             Inr (forwarded_request p rio)"
    using build_http_request_ok [OF assms(8) len]
    by (simp add: forwarded_request_def assms(7))
  have rl: "length ?rl < MAXLINE cfg"
    using assms(10) by (simp add: forwarded_request_def)
  show ?thesis
    by (rule doit_miss [OF assms(1-5) rl assms(9) b assms(6)])
qed

lemma example_env_fields:
  "other_header_uninit (example_env request parsed headers blocks) = []"
  "0 \<le> open_clientfd (example_env request parsed headers blocks) host port"
  "server_rio (example_env request parsed headers blocks) = blocks"
  by (simp_all add: example_env_def)

lemma example_parsed_fields:
  "URI example_parsed = ''example.com:80/''" "HOST example_parsed = ''example.com''"
  "PORT example_parsed = ''80''" "PATH example_parsed = ''/''"
  by (simp_all add: example_parsed_def)

lemma example_forwarded_request:
  "forwarded_request example_parsed [host_line, accept_line, connection_id_line, CRLF] =
     proxy_request_line @ host_line @ header_user_agent @ header_connection @
     header_proxy_connection @ accept_line @ CRLF"
  by (simp add: forwarded_request_def header_eval line_defs example_parsed_fields)

lemma example_forwarded_request_2:
  "forwarded_request example_parsed [host_line, accept_line, CRLF] =
     proxy_request_line @ host_line @ header_user_agent @ header_connection @
     header_proxy_connection @ accept_line @ CRLF"
  by (simp add: forwarded_request_def header_eval line_defs example_parsed_fields)

lemma example_spec_outbound_request:
  "spec_outbound_request example_parsed [host_line, accept_line, CRLF] =
     proxy_request_line @ proxy_host_header @ header_user_agent @ header_connection @
     header_proxy_connection @ accept_line @ CRLF"
  by (simp add: spec_outbound_request_def reserved_header_def header_name_def
      header_section_def tolower_bits line_defs example_parsed_fields)

lemma example_blocks:
  "origin_blocks (example_env request parsed headers oversized_blocks) = oversized_blocks"
  "origin_blocks (example_env request parsed headers exact_cap_blocks) = exact_cap_blocks"
  "length (concat oversized_blocks) = 106496"
  "length (concat exact_cap_blocks) = 102400"
  by (simp_all add: origin_blocks_def example_env_fields oversized_blocks_def
      exact_cap_blocks_def length_concat sum_list_replicate)

lemma example_forwarded_request_3:
  "forwarded_request example_parsed [CRLF] =
     proxy_request_line @ proxy_host_header @ header_user_agent @ header_connection @
     header_proxy_connection @ CRLF"
  by (simp add: forwarded_request_def header_eval line_defs example_parsed_fields)

lemma version_1_10_accepted:
  "accepted_version (HTTP_VERSION (example_parsed\<lparr>HTTP_VERSION := ''1.10''\<rparr>))"
  by (simp add: accepted_version_def tolower_bits)

section \<open>The claims\<close>

text \<open>
  C3. A valid GET request (method \<open>GET\<close>, version accepted) whose URI has an entry in the
  cache is answered with the cached bytes and the connection is closed: the run is the
  cache lookup, one write of the body to the client and the close of the client's
  descriptor, with no connection to an origin and no forwarded request.
\<close>

theorem cache_hit_served_without_origin:
  assumes "rio_readlineb (client_rio e) (buf_uninit e) = (n, request, rio)"
    and "parser_parse_line e request = Some p"
    and "strcasecmp (METHOD p) ''GET'' = 0"
    and "accepted_version (HTTP_VERSION p)"
    and "map_of c (URI p) = Some body"
  shows "thread cfg e c =
           Inr ([Cache_read (URI p), Client_write body, Close_connfd],
                (URI p, body) # filter (\<lambda>x. fst x \<noteq> URI p) c)"
  using doit_hit [OF assms] by (simp add: thread_def)

theorem cache_hit_served_without_origin_witness:
  "rio_readlineb (client_rio (example_env example_request (Some example_parsed) [CRLF] []))
     (buf_uninit (example_env example_request (Some example_parsed) [CRLF] [])) =
     (34, example_request, [CRLF]) \<and>
   parser_parse_line (example_env example_request (Some example_parsed) [CRLF] [])
     example_request = Some example_parsed \<and>
   strcasecmp (METHOD example_parsed) ''GET'' = 0 \<and>
   accepted_version (HTTP_VERSION example_parsed) \<and>
   map_of [(''example.com:80/'', ''hello'')] (URI example_parsed) = Some ''hello'' \<and>
   thread csapp_config (example_env example_request (Some example_parsed) [CRLF] [])
     [(''example.com:80/'', ''hello'')] =
     Inr ([Cache_read ''example.com:80/'', Client_write ''hello'', Close_connfd],
          [(''example.com:80/'', ''hello'')])"
proof -
  let ?e = "example_env example_request (Some example_parsed) [CRLF] []"
  have h1: "rio_readlineb (client_rio ?e) (buf_uninit ?e) = (34, example_request, [CRLF])"
    by (rule example_request_read)
  have h2: "parser_parse_line ?e example_request = Some example_parsed"
    by (simp add: example_env_def)
  have h5: "map_of [(''example.com:80/'', ''hello'')] (URI example_parsed) = Some ''hello''"
    by (simp add: example_parsed_def)
  have u: "URI example_parsed = ''example.com:80/''"
    by (simp add: example_parsed_def)
  show ?thesis
    using h1 h2 example_parsed_valid h5
      cache_hit_served_without_origin [OF h1 h2 example_parsed_valid h5, of csapp_config]
    by (simp add: u)
qed

text \<open>
  C7, amended. When the parser reports an error on the request line, and the error
  response fits its buffers (the body is shorter than \<open>MAXBUF\<close>, the headers shorter than
  \<open>MAXLINE\<close>) and both writes to the client succeed, the handler writes the headers and
  the body of a \<open>400 Bad Request\<close> response and the connection is closed; there is no
  cache lookup and no contact with an origin.
\<close>

theorem parse_error_answers_400:
  assumes "rio_readlineb (client_rio e) (buf_uninit e) = (n, request, rio)"
    and "parser_parse_line e request = None"
    and "length (error_body ''400'' ''Bad Request''
                   ''Tiny could not handle this request (ERROR)'' request) < MAXBUF cfg"
    and "length (error_headers ''400'' ''Bad Request''
                   (length (error_body ''400'' ''Bad Request''
                      ''Tiny could not handle this request (ERROR)'' request))) < MAXLINE cfg"
    and "rio_writen_ok e 0" and "rio_writen_ok e 1"
  shows "thread cfg e c =
           Inr ([Client_write (error_headers ''400'' ''Bad Request''
                   (length (error_body ''400'' ''Bad Request''
                      ''Tiny could not handle this request (ERROR)'' request))),
                 Client_write (error_body ''400'' ''Bad Request''
                   ''Tiny could not handle this request (ERROR)'' request),
                 Close_connfd], c)"
  using doit_parse_error [OF assms(1,2)] clienterror_sent [OF assms(3-6)]
  by (simp add: thread_def)

theorem parse_error_answers_400_witness:
  "thread csapp_config (example_env versionless_request None [] []) [] =
     Inr ([Client_write (error_headers ''400'' ''Bad Request'' 210),
           Client_write (error_body ''400'' ''Bad Request''
             ''Tiny could not handle this request (ERROR)'' versionless_request),
           Close_connfd], [])"
proof -
  let ?e = "example_env versionless_request None [] []"
  have h1: "rio_readlineb (client_rio ?e) (buf_uninit ?e) = (7, versionless_request, [])"
    by (simp add: example_env_def versionless_request_def)
  have h2: "parser_parse_line ?e versionless_request = None"
    by (rule example_env_parser)
  have len: "length (error_body ''400'' ''Bad Request''
               ''Tiny could not handle this request (ERROR)'' versionless_request) = 210"
    by (simp add: error_body_def versionless_request_def)
  have h3: "length (error_body ''400'' ''Bad Request''
              ''Tiny could not handle this request (ERROR)'' versionless_request) < MAXBUF csapp_config"
    by (simp add: len csapp_config_def)
  have h4: "length (error_headers ''400'' ''Bad Request''
              (length (error_body ''400'' ''Bad Request''
                 ''Tiny could not handle this request (ERROR)'' versionless_request))) < MAXLINE csapp_config"
    by (simp add: len error_headers_def decimal_210 csapp_config_def)
  show ?thesis
    using parse_error_answers_400 [OF h1 h2 h3 h4 example_env_writes example_env_writes, of "[]"]
    by (simp only: len)
qed

text \<open>
  C7, as stated, fails: a request line of 8191 characters on which the parser reports an
  error makes the body of the error response longer than \<open>MAXBUF\<close>, and \<open>clienterror\<close>
  returns before it writes anything; the connection is closed with no response.
\<close>

theorem parse_error_answers_400_counterexample:
  "parser_parse_line (example_env (replicate 8191 (CHR ''A'')) None [] [])
     (replicate 8191 (CHR ''A'')) = None \<and>
   thread csapp_config (example_env (replicate 8191 (CHR ''A'')) None [] []) [] =
     Inr ([Close_connfd], [])"
proof -
  let ?r = "replicate 8191 (CHR ''A'')"
  let ?e = "example_env ?r None [] []"
  have h1: "rio_readlineb (client_rio ?e) (buf_uninit ?e) = (8191, ?r, [])"
    by (simp add: example_env_def)
  have h2: "parser_parse_line ?e ?r = None"
    by (rule example_env_parser)
  have "clienterror csapp_config (rio_writen_ok ?e) ?r ''400'' ''Bad Request''
          ''Tiny could not handle this request (ERROR)'' = []"
    by (rule clienterror_silent) (simp add: csapp_config_def error_body_def)
  with doit_parse_error [OF h1 h2, of csapp_config "[]"] h2 show ?thesis
    by (simp add: thread_def)
qed

text \<open>
  C5, amended. When the request line is parsed and its method is not \<open>GET\<close>, and the
  error response fits its buffers (the body is shorter than \<open>MAXBUF\<close>, the headers shorter
  than \<open>MAXLINE\<close>) and both writes to the client succeed, the handler writes the headers
  and the body of a \<open>501 Not implemented\<close> response and the connection is closed; there
  is no cache lookup and no contact with an origin.
\<close>

theorem unsupported_method_answers_501:
  assumes "rio_readlineb (client_rio e) (buf_uninit e) = (n, request, rio)"
    and "parser_parse_line e request = Some p"
    and "strcasecmp (METHOD p) ''GET'' \<noteq> 0"
    and "length (error_body ''501'' ''Not implemented''
                   ''Tiny does not implement this method'' request) < MAXBUF cfg"
    and "length (error_headers ''501'' ''Not implemented''
                   (length (error_body ''501'' ''Not implemented''
                      ''Tiny does not implement this method'' request))) < MAXLINE cfg"
    and "rio_writen_ok e 0" and "rio_writen_ok e 1"
  shows "thread cfg e c =
           Inr ([Client_write (error_headers ''501'' ''Not implemented''
                   (length (error_body ''501'' ''Not implemented''
                      ''Tiny does not implement this method'' request))),
                 Client_write (error_body ''501'' ''Not implemented''
                   ''Tiny does not implement this method'' request),
                 Close_connfd], c)"
  using doit_bad_method [OF assms(1-3)] clienterror_sent [OF assms(4-7)]
  by (simp add: thread_def)

theorem unsupported_method_answers_501_witness:
  "strcasecmp (METHOD (example_parsed\<lparr>METHOD := ''POST''\<rparr>)) ''GET'' \<noteq> 0 \<and>
   thread csapp_config
     (example_env post_request (Some (example_parsed\<lparr>METHOD := ''POST''\<rparr>)) [CRLF] []) [] =
     Inr ([Client_write (error_headers ''501'' ''Not implemented'' 235),
           Client_write (error_body ''501'' ''Not implemented''
             ''Tiny does not implement this method'' post_request),
           Close_connfd], [])"
proof -
  let ?p = "example_parsed\<lparr>METHOD := ''POST''\<rparr>"
  let ?e = "example_env post_request (Some ?p) [CRLF] []"
  have h1: "rio_readlineb (client_rio ?e) (buf_uninit ?e) = (35, post_request, [CRLF])"
    by (simp add: example_env_def post_request_def)
  have h2: "parser_parse_line ?e post_request = Some ?p"
    by (rule example_env_parser)
  have h3: "strcasecmp (METHOD ?p) ''GET'' \<noteq> 0"
    by (simp add: tolower_bits)
  have len: "length (error_body ''501'' ''Not implemented''
               ''Tiny does not implement this method'' post_request) = 235"
    by (simp add: error_body_def post_request_def)
  have h4: "length (error_body ''501'' ''Not implemented''
              ''Tiny does not implement this method'' post_request) < MAXBUF csapp_config"
    by (simp add: len csapp_config_def)
  have h5: "length (error_headers ''501'' ''Not implemented''
              (length (error_body ''501'' ''Not implemented''
                 ''Tiny does not implement this method'' post_request))) < MAXLINE csapp_config"
    by (simp add: len error_headers_def decimal_235 csapp_config_def)
  show ?thesis
    using h3 unsupported_method_answers_501
      [OF h1 h2 h3 h4 h5 example_env_writes example_env_writes, of "[]"]
    by (simp only: len simp_thms)
qed

text \<open>
  C5, as stated, fails: a \<open>POST\<close> request line of more than 8000 characters makes the
  body of the error response longer than \<open>MAXBUF\<close>, and nothing is written to the client.
\<close>

theorem unsupported_method_answers_501_counterexample:
  "parser_parse_line
     (example_env (long_request ''POST'' ''1.1'')
        (Some (example_parsed\<lparr>METHOD := ''POST''\<rparr>)) [CRLF] [])
     (long_request ''POST'' ''1.1'') = Some (example_parsed\<lparr>METHOD := ''POST''\<rparr>) \<and>
   strcasecmp (METHOD (example_parsed\<lparr>METHOD := ''POST''\<rparr>)) ''GET'' \<noteq> 0 \<and>
   thread csapp_config
     (example_env (long_request ''POST'' ''1.1'')
        (Some (example_parsed\<lparr>METHOD := ''POST''\<rparr>)) [CRLF] []) [] =
     Inr ([Close_connfd], [])"
proof -
  let ?p = "example_parsed\<lparr>METHOD := ''POST''\<rparr>"
  let ?r = "long_request ''POST'' ''1.1''"
  let ?e = "example_env ?r (Some ?p) [CRLF] []"
  have h2: "parser_parse_line ?e ?r = Some ?p"
    by (rule example_env_parser)
  have h3: "strcasecmp (METHOD ?p) ''GET'' \<noteq> 0"
    by (simp add: tolower_bits)
  have "clienterror csapp_config (rio_writen_ok ?e) ?r ''501'' ''Not implemented''
          ''Tiny does not implement this method'' = []"
    by (rule clienterror_silent) (simp add: csapp_config_def error_body_def long_request_def)
  with doit_bad_method [OF long_request_read h2 h3, of csapp_config "[]"]
  have "thread csapp_config ?e [] = Inr ([Close_connfd], [])"
    by (simp add: thread_def)
  with h2 h3 show ?thesis
    by blast
qed

text \<open>
  C6, amended. For a parsed GET request, the handler goes on to the cache lookup only
  when the version is accepted, that is when its first three characters are \<open>1.0\<close> or
  \<open>1.1\<close> (the test is \<open>strncasecmp\<close> over three characters); for every other version,
  when the error response fits its buffers and both writes to the client succeed, it
  writes a \<open>400 Bad Request\<close> response and the connection is closed.
\<close>

theorem version_gate:
  assumes "rio_readlineb (client_rio e) (buf_uninit e) = (n, request, rio)"
    and "parser_parse_line e request = Some p"
    and "strcasecmp (METHOD p) ''GET'' = 0"
  shows "(\<forall>t c'. doit cfg e c = Inr (t, c') \<and> Cache_read (URI p) \<in> set t \<longrightarrow>
            accepted_version (HTTP_VERSION p)) \<and>
         (\<not> accepted_version (HTTP_VERSION p) \<and>
          length (error_body ''400'' ''Bad Request''
                    ''Tiny could not handle this request (HTTP_VERSION)'' request) < MAXBUF cfg \<and>
          length (error_headers ''400'' ''Bad Request''
                    (length (error_body ''400'' ''Bad Request''
                       ''Tiny could not handle this request (HTTP_VERSION)'' request)))
            < MAXLINE cfg \<and>
          rio_writen_ok e 0 \<and> rio_writen_ok e 1 \<longrightarrow>
          thread cfg e c =
            Inr ([Client_write (error_headers ''400'' ''Bad Request''
                    (length (error_body ''400'' ''Bad Request''
                       ''Tiny could not handle this request (HTTP_VERSION)'' request))),
                  Client_write (error_body ''400'' ''Bad Request''
                    ''Tiny could not handle this request (HTTP_VERSION)'' request),
                  Close_connfd], c))"
proof (intro conjI allI impI)
  fix t c'
  assume a: "doit cfg e c = Inr (t, c') \<and> Cache_read (URI p) \<in> set t"
  show "accepted_version (HTTP_VERSION p)"
  proof (rule ccontr)
    assume "\<not> accepted_version (HTTP_VERSION p)"
    from doit_bad_version [OF assms this, of cfg c] a show False
      by (simp add: Cache_read_notin_clienterror)
  qed
next
  assume a: "\<not> accepted_version (HTTP_VERSION p) \<and>
          length (error_body ''400'' ''Bad Request''
                    ''Tiny could not handle this request (HTTP_VERSION)'' request) < MAXBUF cfg \<and>
          length (error_headers ''400'' ''Bad Request''
                    (length (error_body ''400'' ''Bad Request''
                       ''Tiny could not handle this request (HTTP_VERSION)'' request)))
            < MAXLINE cfg \<and>
          rio_writen_ok e 0 \<and> rio_writen_ok e 1"
  then have "clienterror cfg (rio_writen_ok e) request ''400'' ''Bad Request''
               ''Tiny could not handle this request (HTTP_VERSION)'' =
             [Client_write (error_headers ''400'' ''Bad Request''
                    (length (error_body ''400'' ''Bad Request''
                       ''Tiny could not handle this request (HTTP_VERSION)'' request))),
              Client_write (error_body ''400'' ''Bad Request''
                    ''Tiny could not handle this request (HTTP_VERSION)'' request)]"
    by (intro clienterror_sent) simp_all
  with doit_bad_version [OF assms, of cfg c] a
  show "thread cfg e c =
            Inr ([Client_write (error_headers ''400'' ''Bad Request''
                    (length (error_body ''400'' ''Bad Request''
                       ''Tiny could not handle this request (HTTP_VERSION)'' request))),
                  Client_write (error_body ''400'' ''Bad Request''
                    ''Tiny could not handle this request (HTTP_VERSION)'' request),
                  Close_connfd], c)"
    by (simp add: thread_def)
qed

theorem version_gate_witness:
  "\<not> accepted_version (HTTP_VERSION (example_parsed\<lparr>HTTP_VERSION := ''2.0''\<rparr>)) \<and>
   thread csapp_config
     (example_env http2_request (Some (example_parsed\<lparr>HTTP_VERSION := ''2.0''\<rparr>)) [CRLF] []) [] =
     Inr ([Client_write (error_headers ''400'' ''Bad Request'' 244),
           Client_write (error_body ''400'' ''Bad Request''
             ''Tiny could not handle this request (HTTP_VERSION)'' http2_request),
           Close_connfd], [])"
proof -
  let ?p = "example_parsed\<lparr>HTTP_VERSION := ''2.0''\<rparr>"
  let ?e = "example_env http2_request (Some ?p) [CRLF] []"
  have h1: "rio_readlineb (client_rio ?e) (buf_uninit ?e) = (34, http2_request, [CRLF])"
    by (simp add: example_env_def http2_request_def)
  have h2: "parser_parse_line ?e http2_request = Some ?p"
    by (rule example_env_parser)
  have len: "length (error_body ''400'' ''Bad Request''
               ''Tiny could not handle this request (HTTP_VERSION)'' http2_request) = 244"
    by (simp add: error_body_def http2_request_def)
  have h4: "length (error_body ''400'' ''Bad Request''
              ''Tiny could not handle this request (HTTP_VERSION)'' http2_request)
            < MAXBUF csapp_config"
    by (simp add: len csapp_config_def)
  have h5: "length (error_headers ''400'' ''Bad Request''
              (length (error_body ''400'' ''Bad Request''
                 ''Tiny could not handle this request (HTTP_VERSION)'' http2_request)))
            < MAXLINE csapp_config"
    by (simp add: len error_headers_def decimal_244 csapp_config_def)
  from version_gate [OF h1 h2 example_parsed_update_GET, of csapp_config "[]"]
    version_2_rejected h4 h5 example_env_writes [of http2_request "Some ?p" "[CRLF]" "[]"]
  have "thread csapp_config ?e [] =
     Inr ([Client_write (error_headers ''400'' ''Bad Request''
             (length (error_body ''400'' ''Bad Request''
                ''Tiny could not handle this request (HTTP_VERSION)'' http2_request))),
           Client_write (error_body ''400'' ''Bad Request''
             ''Tiny could not handle this request (HTTP_VERSION)'' http2_request),
           Close_connfd], [])"
    by blast
  with version_2_rejected show ?thesis
    by (simp only: len simp_thms)
qed

text \<open>
  C6, as stated, fails twice: a GET request line of more than 8000 characters with
  version \<open>2.0\<close> gets no response at all, since the error response does not fit its
  buffer; and a request whose version string is \<open>1.10\<close>, which is neither \<open>1.0\<close> nor
  \<open>1.1\<close>, is accepted and served from the cache, since only the first three characters
  are compared.
\<close>

theorem version_gate_counterexample:
  "parser_parse_line
     (example_env (long_request ''GET'' ''2.0'')
        (Some (example_parsed\<lparr>HTTP_VERSION := ''2.0''\<rparr>)) [CRLF] [])
     (long_request ''GET'' ''2.0'') = Some (example_parsed\<lparr>HTTP_VERSION := ''2.0''\<rparr>) \<and>
   strcasecmp (METHOD (example_parsed\<lparr>HTTP_VERSION := ''2.0''\<rparr>)) ''GET'' = 0 \<and>
   \<not> accepted_version (HTTP_VERSION (example_parsed\<lparr>HTTP_VERSION := ''2.0''\<rparr>)) \<and>
   thread csapp_config
     (example_env (long_request ''GET'' ''2.0'')
        (Some (example_parsed\<lparr>HTTP_VERSION := ''2.0''\<rparr>)) [CRLF] []) [] =
     Inr ([Close_connfd], []) \<and>
   HTTP_VERSION (example_parsed\<lparr>HTTP_VERSION := ''1.10''\<rparr>) = ''1.10'' \<and>
   thread csapp_config
     (example_env example_request (Some (example_parsed\<lparr>HTTP_VERSION := ''1.10''\<rparr>)) [CRLF] [])
     [(''example.com:80/'', ''hello'')] =
     Inr ([Cache_read ''example.com:80/'', Client_write ''hello'', Close_connfd],
          [(''example.com:80/'', ''hello'')])"
proof -
  let ?p = "example_parsed\<lparr>HTTP_VERSION := ''2.0''\<rparr>"
  let ?r = "long_request ''GET'' ''2.0''"
  let ?e = "example_env ?r (Some ?p) [CRLF] []"
  let ?q = "example_parsed\<lparr>HTTP_VERSION := ''1.10''\<rparr>"
  let ?f = "example_env example_request (Some ?q) [CRLF] []"
  have h2: "parser_parse_line ?e ?r = Some ?p"
    by (rule example_env_parser)
  have "clienterror csapp_config (rio_writen_ok ?e) ?r ''400'' ''Bad Request''
          ''Tiny could not handle this request (HTTP_VERSION)'' = []"
    by (rule clienterror_silent) (simp add: csapp_config_def error_body_def long_request_def)
  with doit_bad_version [OF long_request_read h2 example_parsed_update_GET version_2_rejected,
      of csapp_config "[]"]
  have 1: "thread csapp_config ?e [] = Inr ([Close_connfd], [])"
    by (simp add: thread_def)
  have g2: "parser_parse_line ?f example_request = Some ?q"
    by (rule example_env_parser)
  have g5: "map_of [(''example.com:80/'', ''hello'')] (URI ?q) = Some ''hello''"
    by (simp add: example_parsed_def)
  have u: "URI ?q = ''example.com:80/''"
    by (simp add: example_parsed_def)
  have 2: "thread csapp_config ?f [(''example.com:80/'', ''hello'')] =
     Inr ([Cache_read ''example.com:80/'', Client_write ''hello'', Close_connfd],
          [(''example.com:80/'', ''hello'')])"
    using doit_hit [OF example_request_read g2 example_parsed_update_GET version_1_10_accepted g5,
        of csapp_config]
    by (simp add: thread_def u)
  have 3: "HTTP_VERSION ?q = ''1.10''"
    by simp
  from h2 example_parsed_update_GET [of "''2.0''"] version_2_rejected 1 2 3 show ?thesis
    by blast
qed

text \<open>
  C8. A failure of \<open>accept\<close> does not end the loop of \<open>main\<close>: whatever the outcomes
  before and after it, the failure is logged with \<open>perror\<close>, no thread is created for it,
  the loop goes on with the following \<open>accept\<close> calls exactly as it would have without
  the failure, and the process has not exited.
\<close>

theorem accept_failure_does_not_stop_loop:
  assumes "length argv = 2" and "0 \<le> listenfd" and "connfd < 0"
  shows "main argv listenfd (before @ (connfd, host, port) # after) =
           (accept_loop before @ Accept connfd # Stderr ''accept error'' # accept_loop after,
            None)"
  using assms by (simp add: main_def accept_loop_append)

theorem accept_failure_does_not_stop_loop_witness:
  "main [''proxy'', ''8080''] 3
     ([(4, ''10.0.0.1'', ''40000'')] @ (- 1, [], []) # [(5, ''10.0.0.2'', ''40001'')]) =
     ([Accept 4, Stdout (''Accepted connection from (10.0.0.1, 40000)'' @ LF), Pthread_create 4,
       Accept (- 1), Stderr ''accept error'',
       Accept 5, Stdout (''Accepted connection from (10.0.0.2, 40001)'' @ LF), Pthread_create 5],
      None)"
proof -
  have h1: "length [''proxy'', ''8080''] = 2" by simp
  have h2: "(0::int) \<le> 3" by simp
  have h3: "(- 1::int) < 0" by simp
  from accept_failure_does_not_stop_loop [OF h1 h2 h3, of "[(4, ''10.0.0.1'', ''40000'')]" "[]" "[]"
      "[(5, ''10.0.0.2'', ''40001'')]"]
  show ?thesis by simp
qed

text \<open>
  C9. When the formatted body would reach \<open>MAXBUF\<close> bytes or the formatted headers
  \<open>MAXLINE\<close> bytes, \<open>clienterror\<close> returns without a write to the client; and there is
  a malformed request (one on which the parser reports an error) for which, with the
  buffer sizes of csapp.h, the run of the connection is its close alone.
\<close>

theorem clienterror_overflow_is_silent:
  "(MAXBUF cfg \<le> length (error_body errnum shortmsg longmsg cause) \<or>
    MAXLINE cfg \<le> length (error_headers errnum shortmsg
                             (length (error_body errnum shortmsg longmsg cause))) \<longrightarrow>
    clienterror cfg wr cause errnum shortmsg longmsg = []) \<and>
   (\<exists>e request rio c.
      client_rio e = request # rio \<and> request \<noteq> [] \<and> parser_parse_line e request = None \<and>
      thread csapp_config e c = Inr ([Close_connfd], c))"
proof (intro conjI impI)
  assume "MAXBUF cfg \<le> length (error_body errnum shortmsg longmsg cause) \<or>
    MAXLINE cfg \<le> length (error_headers errnum shortmsg
                             (length (error_body errnum shortmsg longmsg cause)))"
  then show "clienterror cfg wr cause errnum shortmsg longmsg = []"
    by (rule clienterror_silent)
next
  let ?r = "long_request ''GEX'' ''1.1''"
  let ?e = "example_env ?r None [] []"
  have h2: "parser_parse_line ?e ?r = None"
    by (rule example_env_parser)
  have "clienterror csapp_config (rio_writen_ok ?e) ?r ''400'' ''Bad Request''
          ''Tiny could not handle this request (ERROR)'' = []"
    by (rule clienterror_silent) (simp add: csapp_config_def error_body_def long_request_def)
  with doit_parse_error [OF long_request_read h2, of csapp_config "[]"]
  have "thread csapp_config ?e [] = Inr ([Close_connfd], [])"
    by (simp add: thread_def)
  moreover have "client_rio ?e = ?r # []" "?r \<noteq> []"
    by (simp_all add: example_env_def long_request_def)
  ultimately show "\<exists>e request rio c.
      client_rio e = request # rio \<and> request \<noteq> [] \<and> parser_parse_line e request = None \<and>
      thread csapp_config e c = Inr ([Close_connfd], c)"
    using h2 by blast
qed

theorem clienterror_overflow_is_silent_witness:
  "MAXBUF csapp_config \<le>
     length (error_body ''501'' ''Not implemented'' ''Tiny does not implement this method''
               (long_request ''PUT'' ''1.0'')) \<and>
   clienterror csapp_config (\<lambda>k. True) (long_request ''PUT'' ''1.0'') ''501'' ''Not implemented''
     ''Tiny does not implement this method'' = []"
proof -
  have h: "MAXBUF csapp_config \<le>
     length (error_body ''501'' ''Not implemented'' ''Tiny does not implement this method''
               (long_request ''PUT'' ''1.0''))"
    by (simp add: csapp_config_def error_body_def long_request_def)
  with clienterror_overflow_is_silent [of csapp_config "''501''" "''Not implemented''"
      "''Tiny does not implement this method''" "long_request ''PUT'' ''1.0''" "\<lambda>k. True"]
  show ?thesis by blast
qed

text \<open>
  C1, amended. For a cache-miss GET request whose origin accepts the connection, when
  the array \<open>other_header\<close> starts empty, no line that begins with \<open>Host\<close> holds a \<open>%\<close>,
  and the request fits \<open>MAXLINE\<close>, the one request written to the origin is: the line
  \<open>GET <path> HTTP/1.0\<close>; the Host header, which is the client's last header line that
  begins with \<open>Host\<close> (letter case aside) and \<open>Host: <host>:<port>\<close> only when the client
  sent none; the fixed \<open>User-Agent\<close>, \<open>Connection: close\<close> and \<open>Proxy-Connection: close\<close>
  headers; the client's other header lines up to the blank line, in their order and
  unchanged, except those that begin with \<open>Host\<close>, \<open>User-Agent\<close>, \<open>Connection\<close> or
  \<open>Proxy-Connection\<close>; and the blank line.
\<close>

theorem forwarded_request_shape:
  assumes "rio_readlineb (client_rio e) (buf_uninit e) = (n, request, rio)"
    and "parser_parse_line e request = Some p"
    and "strcasecmp (METHOD p) ''GET'' = 0"
    and "accepted_version (HTTP_VERSION p)"
    and "map_of c (URI p) = None"
    and "0 \<le> open_clientfd e (HOST p) (PORT p)"
    and "other_header_uninit e = []"
    and "\<forall>l \<in> set (filter begins_host (header_section rio)).
           CHR ''%'' \<notin> set l \<and> length l < MAXLINE cfg"
    and "length (''Host: '' @ HOST p @ '':'' @ PORT p @ CRLF) < MAXLINE cfg"
    and "length (forwarded_request p rio) < MAXLINE cfg"
  shows "server_writes (doit cfg e c) = [forwarded_request p rio]"
  by (simp add: doit_forwards [OF assms] server_writes_def server_writes_relayed)

theorem forwarded_request_shape_witness:
  "server_writes
     (doit csapp_config
        (example_env example_request (Some example_parsed)
           [host_line, accept_line, connection_id_line, CRLF] []) []) =
     [forwarded_request example_parsed [host_line, accept_line, connection_id_line, CRLF]] \<and>
   forwarded_request example_parsed [host_line, accept_line, connection_id_line, CRLF] =
     proxy_request_line @ host_line @ header_user_agent @ header_connection @
     header_proxy_connection @ accept_line @ CRLF"
proof -
  let ?hs = "[host_line, accept_line, connection_id_line, CRLF]"
  let ?e = "example_env example_request (Some example_parsed) ?hs []"
  have h2: "parser_parse_line ?e example_request = Some example_parsed"
    by (rule example_env_parser)
  have h5: "map_of [] (URI example_parsed) = None"
    by simp
  have h8: "\<forall>l \<in> set (filter begins_host (header_section ?hs)).
              CHR ''%'' \<notin> set l \<and> length l < MAXLINE csapp_config"
    by (simp add: header_eval line_defs csapp_config_def)
  have h9: "length (''Host: '' @ HOST example_parsed @ '':'' @ PORT example_parsed @ CRLF)
              < MAXLINE csapp_config"
    by (simp add: example_parsed_fields csapp_config_def)
  have h10: "length (forwarded_request example_parsed ?hs) < MAXLINE csapp_config"
    unfolding example_forwarded_request
    by (simp add: fixed_headers_length line_defs csapp_config_def)
  from forwarded_request_shape [OF example_request_read h2 example_parsed_valid h5
      example_env_fields(2) example_env_fields(1) h8 h9 h10]
    example_forwarded_request
  show ?thesis by blast
qed

text \<open>
  C1, as stated, fails: the client's own \<open>Host: example.com\<close> header is forwarded in the
  place of the header \<open>Host: example.com:80\<close> that the proxy built, as the comment in
  \<open>build_http_request\<close> announces.
\<close>

theorem forwarded_request_shape_counterexample:
  "server_writes
     (doit csapp_config
        (example_env example_request (Some example_parsed) [host_line, accept_line, CRLF] [])
        []) =
     [proxy_request_line @ host_line @ header_user_agent @ header_connection @
      header_proxy_connection @ accept_line @ CRLF] \<and>
   spec_outbound_request example_parsed [host_line, accept_line, CRLF] =
     proxy_request_line @ proxy_host_header @ header_user_agent @ header_connection @
     header_proxy_connection @ accept_line @ CRLF \<and>
   server_writes
     (doit csapp_config
        (example_env example_request (Some example_parsed) [host_line, accept_line, CRLF] [])
        []) \<noteq>
     [spec_outbound_request example_parsed [host_line, accept_line, CRLF]]"
proof -
  let ?hs = "[host_line, accept_line, CRLF]"
  let ?e = "example_env example_request (Some example_parsed) ?hs []"
  have h2: "parser_parse_line ?e example_request = Some example_parsed"
    by (rule example_env_parser)
  have h5: "map_of [] (URI example_parsed) = None"
    by simp
  have h8: "\<forall>l \<in> set (filter begins_host (header_section ?hs)).
              CHR ''%'' \<notin> set l \<and> length l < MAXLINE csapp_config"
    by (simp add: header_eval line_defs csapp_config_def)
  have h9: "length (''Host: '' @ HOST example_parsed @ '':'' @ PORT example_parsed @ CRLF)
              < MAXLINE csapp_config"
    by (simp add: example_parsed_fields csapp_config_def)
  have h10: "length (forwarded_request example_parsed ?hs) < MAXLINE csapp_config"
    unfolding example_forwarded_request_2
    by (simp add: fixed_headers_length line_defs csapp_config_def)
  have sent: "server_writes (doit csapp_config ?e []) =
                [proxy_request_line @ host_line @ header_user_agent @ header_connection @
                 header_proxy_connection @ accept_line @ CRLF]"
    using doit_forwards [OF example_request_read h2 example_parsed_valid h5
        example_env_fields(2) example_env_fields(1) h8 h9 h10]
    by (simp add: server_writes_def server_writes_relayed example_forwarded_request_2)
  have "host_line \<noteq> proxy_host_header"
    by (simp add: line_defs)
  then have ne: "proxy_request_line @ host_line @ header_user_agent @ header_connection @
                 header_proxy_connection @ accept_line @ CRLF \<noteq>
             proxy_request_line @ proxy_host_header @ header_user_agent @ header_connection @
                 header_proxy_connection @ accept_line @ CRLF"
    by simp
  show ?thesis
    unfolding sent example_spec_outbound_request using ne by simp
qed

text \<open>
  C2. The claim caches a response whose total size is at most \<open>MAX_OBJECT_SIZE\<close>, and
  so does the comment of the source (``if maximum object size is not exceeded''); the
  code tests \<open>response_size < MAX_OBJECT_SIZE\<close>. On a response of exactly 102400 bytes,
  read to its end of file, the run has no call of \<open>write_cache\<close> and the cache is left
  empty.
\<close>

theorem response_of_exactly_the_cap_is_not_cached:
  "length (concat (origin_blocks
      (example_env example_request (Some example_parsed) [CRLF] exact_cap_blocks))) =
     MAX_OBJECT_SIZE csapp_config \<and>
   doit csapp_config
     (example_env example_request (Some example_parsed) [CRLF] exact_cap_blocks) [] =
     Inr ([Cache_read (URI example_parsed),
           Open_clientfd (HOST example_parsed) (PORT example_parsed),
           Server_write (forwarded_request example_parsed [CRLF])] @
          relayed (origin_blocks
            (example_env example_request (Some example_parsed) [CRLF] exact_cap_blocks)) @
          [Close_serverfd], [])"
proof -
  let ?e = "example_env example_request (Some example_parsed) [CRLF] exact_cap_blocks"
  have h2: "parser_parse_line ?e example_request = Some example_parsed"
    by (rule example_env_parser)
  have h5: "map_of [] (URI example_parsed) = None"
    by simp
  have h8: "\<forall>l \<in> set (filter begins_host (header_section [CRLF])).
              CHR ''%'' \<notin> set l \<and> length l < MAXLINE csapp_config"
    by (simp add: header_section_def)
  have h9: "length (''Host: '' @ HOST example_parsed @ '':'' @ PORT example_parsed @ CRLF)
              < MAXLINE csapp_config"
    by (simp add: example_parsed_fields csapp_config_def)
  have h10: "length (forwarded_request example_parsed [CRLF]) < MAXLINE csapp_config"
    unfolding example_forwarded_request_3
    by (simp add: fixed_headers_length line_defs csapp_config_def)
  have cap: "length (concat (origin_blocks ?e)) = MAX_OBJECT_SIZE csapp_config"
    by (simp add: example_blocks csapp_config_def)
  from doit_forwards [OF example_request_read h2 example_parsed_valid h5
      example_env_fields(2) example_env_fields(1) h8 h9 h10] cap
  show ?thesis by simp
qed

text \<open>
  C4. On a cache miss with the origin connected, every block read from the origin is
  written to the client right after it is read, before the next read: the run is the
  lookup, the connection, the request, then each block's read followed by its write, and
  after the last block only the optional \<open>write_cache\<close> and the close. The writes to the
  client are exactly the blocks of the response, in order, whatever \<open>MAX_OBJECT_SIZE\<close> is.
\<close>

theorem relay_writes_every_block:
  assumes "rio_readlineb (client_rio e) (buf_uninit e) = (n, request, rio)"
    and "parser_parse_line e request = Some p"
    and "strcasecmp (METHOD p) ''GET'' = 0"
    and "accepted_version (HTTP_VERSION p)"
    and "map_of c (URI p) = None"
    and "length (''GET '' @ PATH p @ '' HTTP/1.0'' @ CRLF) < MAXLINE cfg"
    and "length (''Host: '' @ HOST p @ '':'' @ PORT p @ CRLF) < MAXLINE cfg"
    and "build_http_request (MAXLINE cfg) rio (''GET '' @ PATH p @ '' HTTP/1.0'' @ CRLF)
           (''Host: '' @ HOST p @ '':'' @ PORT p @ CRLF) (other_header_uninit e) = Inr http_request"
    and "0 \<le> open_clientfd e (HOST p) (PORT p)"
  shows "\<exists>t tail c'.
           doit cfg e c = Inr (t, c') \<and>
           t = [Cache_read (URI p), Open_clientfd (HOST p) (PORT p), Server_write http_request] @
               relayed (origin_blocks e) @ tail \<and>
           (tail = [Close_serverfd] \<or>
            tail = [Cache_write (URI p) (concat (origin_blocks e)), Close_serverfd]) \<and>
           [b. Client_write b \<leftarrow> t] = origin_blocks e"
proof (cases "length (concat (origin_blocks e)) < MAX_OBJECT_SIZE cfg")
  case True
  with doit_miss [OF assms] show ?thesis
    by (simp add: client_writes_relayed)
next
  case False
  with doit_miss [OF assms] show ?thesis
    by (simp add: client_writes_relayed)
qed

theorem relay_writes_every_block_witness:
  "MAX_OBJECT_SIZE csapp_config < length (concat oversized_blocks) \<and>
   origin_blocks (example_env example_request (Some example_parsed) [CRLF] oversized_blocks) =
     oversized_blocks \<and>
   (\<exists>t tail c'.
      doit csapp_config
        (example_env example_request (Some example_parsed) [CRLF] oversized_blocks) [] =
        Inr (t, c') \<and>
      t = [Cache_read (URI example_parsed),
           Open_clientfd (HOST example_parsed) (PORT example_parsed),
           Server_write (forwarded_request example_parsed [CRLF])] @
          relayed (origin_blocks
            (example_env example_request (Some example_parsed) [CRLF] oversized_blocks)) @ tail \<and>
      (tail = [Close_serverfd] \<or>
       tail = [Cache_write (URI example_parsed)
                 (concat (origin_blocks
                    (example_env example_request (Some example_parsed) [CRLF]
                       oversized_blocks))),
               Close_serverfd]) \<and>
      [b. Client_write b \<leftarrow> t] =
        origin_blocks (example_env example_request (Some example_parsed) [CRLF] oversized_blocks))"
proof -
  let ?e = "example_env example_request (Some example_parsed) [CRLF] oversized_blocks"
  let ?rl = "''GET '' @ PATH example_parsed @ '' HTTP/1.0'' @ CRLF"
  let ?hh = "''Host: '' @ HOST example_parsed @ '':'' @ PORT example_parsed @ CRLF"
  have h2: "parser_parse_line ?e example_request = Some example_parsed"
    by (rule example_env_parser)
  have h5: "map_of [] (URI example_parsed) = None"
    by simp
  have h6: "length ?rl < MAXLINE csapp_config"
    by (simp add: example_parsed_fields csapp_config_def)
  have h7: "length ?hh < MAXLINE csapp_config"
    by (simp add: example_parsed_fields csapp_config_def)
  have ball: "\<forall>l \<in> set (filter begins_host (header_section [CRLF])).
                CHR ''%'' \<notin> set l \<and> length l < MAXLINE csapp_config"
    by (simp add: header_section_def)
  have len: "length (?rl @ forwarded_host ?hh [CRLF] @ header_user_agent @ header_connection @
               header_proxy_connection @ other_header_uninit ?e @
               concat (forwarded_extra [CRLF]) @ CRLF) < MAXLINE csapp_config"
    by (simp add: header_eval fixed_headers_length example_parsed_fields example_env_fields
        csapp_config_def)
  have h8: "build_http_request (MAXLINE csapp_config) [CRLF] ?rl ?hh (other_header_uninit ?e) =
              Inr (forwarded_request example_parsed [CRLF])"
    using build_http_request_ok [OF ball len]
    by (simp add: forwarded_request_def example_env_fields)
  have big: "MAX_OBJECT_SIZE csapp_config < length (concat oversized_blocks)"
    by (simp add: example_blocks csapp_config_def)
  from relay_writes_every_block [OF example_request_read h2 example_parsed_valid h5 h6 h7 h8
      example_env_fields(2)] big example_blocks(1)
  show ?thesis by blast
qed

text \<open>
  C10, amended. The filter tests a prefix of the raw line, letter case aside. A line that
  begins with \<open>User-Agent\<close>, \<open>Connection\<close> or \<open>Proxy-Connection\<close> is dropped: the request
  built is the one built without the line. The \<^emph>\<open>last\<close> line that begins with \<open>Host\<close>
  among the header lines (before the blank line) is taken whole as the Host header of the
  request, when it holds no \<open>%\<close> and the request fits \<open>MAXLINE\<close>.
\<close>

theorem header_filter_matches_prefix:
  "(prefix_nocase ''User-Agent'' l \<or> prefix_nocase ''Connection'' l \<or>
    prefix_nocase ''Proxy-Connection'' l \<longrightarrow>
      build_http_request mx (pre @ l # post) request_line header_host oh =
      build_http_request mx (pre @ post) request_line header_host oh) \<and>
   (prefix_nocase ''Host'' l \<and> CHR ''%'' \<notin> set l \<and>
    (\<forall>x \<in> set pre. x \<noteq> [] \<and> x \<noteq> CRLF) \<and>
    filter (prefix_nocase ''Host'') (header_section post) = [] \<and>
    (\<forall>x \<in> set (filter (prefix_nocase ''Host'') pre). CHR ''%'' \<notin> set x \<and> length x < mx) \<and>
    length (request_line @ l @ header_user_agent @ header_connection @
            header_proxy_connection @ oh @
            concat (forwarded_extra (pre @ l # post)) @ CRLF) < mx \<longrightarrow>
      build_http_request mx (pre @ l # post) request_line header_host oh =
        Inr (request_line @ l @ header_user_agent @ header_connection @
             header_proxy_connection @ oh @
             concat (forwarded_extra (pre @ l # post)) @ CRLF))"
proof -
  have hp: "begins_host = prefix_nocase ''Host''"
    by (rule ext) (rule begins_host_prefix)
  show ?thesis
    using build_http_request_dropped_line [of l mx pre post request_line header_host oh]
      build_http_request_last_host [of l pre post mx request_line oh header_host]
    unfolding begins_dropped_prefix hp by blast
qed

theorem header_filter_matches_prefix_witness:
  "prefix_nocase ''Connection'' connection_id_line \<and>
   build_http_request 8192 ([accept_line] @ connection_id_line # [CRLF])
     proxy_request_line proxy_host_header [] =
   build_http_request 8192 ([accept_line] @ [CRLF]) proxy_request_line proxy_host_header [] \<and>
   prefix_nocase ''Host'' host_override_line \<and>
   build_http_request 8192 ([accept_line] @ host_override_line # [CRLF])
     proxy_request_line proxy_host_header [] =
     Inr (proxy_request_line @ host_override_line @ header_user_agent @ header_connection @
          header_proxy_connection @ [] @
          concat (forwarded_extra ([accept_line] @ host_override_line # [CRLF])) @ CRLF)"
proof -
  have d: "prefix_nocase ''Connection'' connection_id_line"
    by (simp add: prefix_nocase_def connection_id_line_def tolower_bits)
  have h: "prefix_nocase ''Host'' host_override_line"
    by (simp add: prefix_nocase_def host_override_line_def tolower_bits)
  have h2: "CHR ''%'' \<notin> set host_override_line"
    by (simp add: host_override_line_def)
  have h3: "\<forall>x \<in> set [accept_line]. x \<noteq> [] \<and> x \<noteq> CRLF"
    by (simp add: accept_line_def)
  have h4: "filter (prefix_nocase ''Host'') (header_section [CRLF]) = []"
    by (simp add: header_section_def)
  have h5: "\<forall>x \<in> set (filter (prefix_nocase ''Host'') [accept_line]).
              CHR ''%'' \<notin> set x \<and> length x < 8192"
    by (simp add: accept_line_def prefix_nocase_def tolower_bits)
  have h6: "length (proxy_request_line @ host_override_line @ header_user_agent @
              header_connection @ header_proxy_connection @ [] @
              concat (forwarded_extra ([accept_line] @ host_override_line # [CRLF])) @ CRLF) < 8192"
    by (simp add: fixed_headers_length header_eval line_defs)
  from header_filter_matches_prefix [of connection_id_line 8192 "[accept_line]" "[CRLF]"
      proxy_request_line proxy_host_header "[]"] d
  have 1: "build_http_request 8192 ([accept_line] @ connection_id_line # [CRLF])
     proxy_request_line proxy_host_header [] =
   build_http_request 8192 ([accept_line] @ [CRLF]) proxy_request_line proxy_host_header []"
    by blast
  from header_filter_matches_prefix [of host_override_line 8192 "[accept_line]" "[CRLF]"
      proxy_request_line proxy_host_header "[]"] h h2 h3 h4 h5 h6
  have 2: "build_http_request 8192 ([accept_line] @ host_override_line # [CRLF])
     proxy_request_line proxy_host_header [] =
     Inr (proxy_request_line @ host_override_line @ header_user_agent @ header_connection @
          header_proxy_connection @ [] @
          concat (forwarded_extra ([accept_line] @ host_override_line # [CRLF])) @ CRLF)"
    by blast
  from d h 1 2 show ?thesis by blast
qed

text \<open>
  C10, as stated, fails for a line that begins with \<open>Host\<close> and is followed by another:
  with the headers \<open>Host: example.com\<close> and \<open>Host-Override: x\<close>, the Host header of the
  request is the second line, and the first is not forwarded at all.
\<close>

theorem header_filter_matches_prefix_counterexample:
  "prefix_nocase ''Host'' host_line \<and>
   build_http_request 8192 [host_line, host_override_line, CRLF]
     proxy_request_line proxy_host_header [] =
     Inr (proxy_request_line @ host_override_line @ header_user_agent @ header_connection @
          header_proxy_connection @ CRLF) \<and>
   build_http_request 8192 [host_line, host_override_line, CRLF]
     proxy_request_line proxy_host_header [] \<noteq>
     Inr (proxy_request_line @ host_line @ header_user_agent @ header_connection @
          header_proxy_connection @ CRLF)"
proof -
  have h: "prefix_nocase ''Host'' host_line"
    by (simp add: prefix_nocase_def host_line_def tolower_bits)
  have fh: "forwarded_host proxy_host_header [host_line, host_override_line, CRLF] =
              host_override_line"
    by (simp add: header_eval line_defs)
  have fe: "forwarded_extra [host_line, host_override_line, CRLF] = []"
    by (simp add: header_eval line_defs)
  have ball: "\<forall>l \<in> set (filter begins_host
                 (header_section [host_line, host_override_line, CRLF])).
                CHR ''%'' \<notin> set l \<and> length l < 8192"
    by (simp add: header_eval line_defs)
  have len: "length (proxy_request_line @
               forwarded_host proxy_host_header [host_line, host_override_line, CRLF] @
               header_user_agent @ header_connection @ header_proxy_connection @ [] @
               concat (forwarded_extra [host_line, host_override_line, CRLF]) @ CRLF) < 8192"
    unfolding fh fe by (simp add: fixed_headers_length line_defs)
  have b: "build_http_request 8192 [host_line, host_override_line, CRLF]
             proxy_request_line proxy_host_header [] =
           Inr (proxy_request_line @ host_override_line @ header_user_agent @
                header_connection @ header_proxy_connection @ CRLF)"
    using build_http_request_ok [OF ball len] by (simp add: fh fe)
  have ne: "host_override_line \<noteq> host_line"
    by (simp add: line_defs)
  then have "proxy_request_line @ host_override_line @ header_user_agent @
          header_connection @ header_proxy_connection @ CRLF \<noteq>
        proxy_request_line @ host_line @ header_user_agent @
          header_connection @ header_proxy_connection @ CRLF"
    by simp
  with h b show ?thesis by simp
qed

end
